theory Spec2Isabelle
  imports Main "HOL-Library.Sublist" "HOL-Library.AList"
begin

section \<open>Python values, outcomes and the host\<close>

text \<open>
  The repository holds two Ansible modules that reconcile a LuaDist environment:
  \<^verbatim>\<open>library/luadist.py\<close> (the basic variant, definitions prefixed \<open>basic_\<close>) and
  \<^verbatim>\<open>library/luadist_wrapper.py\<close> (the extended variant, prefixed \<open>wrapper_\<close>).
  Both are sequential scripts over three host primitives: a file-existence test, a change
  of working directory, and \<^verbatim>\<open>module.run_command\<close>.
\<close>

datatype pyval = PyNone | PyBool bool | PyInt int | PyStr string | PyList "pyval list"

type_synonym pydict = "(string \<times> pyval) list"

datatype pyexc = TypeError | OSError | KeyError

text \<open>
  How a run ends: \<^verbatim>\<open>module.exit_json(**kw)\<close> and \<^verbatim>\<open>module.fail_json(**kw)\<close> end the
  process and carry their keyword arguments; an uncaught exception ends it too.
\<close>

datatype outcome = Exit_json pydict | Fail_json pydict | Raised pyexc

text \<open>
  A value bound to one of the variables \<^verbatim>\<open>path\<close>, \<^verbatim>\<open>packages\<close>, \<^verbatim>\<open>allow_dists\<close>,
  \<^verbatim>\<open>dists_repo\<close> of the basic variant: a string or a list of strings (what the helper
  functions are documented for) or a dictionary (an entry of \<^verbatim>\<open>module_args\<close>).
\<close>

datatype arg = Str string | StrList "string list" | Spec pydict

text \<open>Python's \<^verbatim>\<open>d[k]\<close>, \<^verbatim>\<open>for x in v\<close>, \<^verbatim>\<open>v == "s"\<close>, \<^verbatim>\<open>"s" + v\<close> and \<^verbatim>\<open>a in b\<close>.\<close>

definition py_getitem :: "('k \<times> 'v) list \<Rightarrow> 'k \<Rightarrow> pyexc + 'v" where
  "py_getitem d k = (case map_of d k of None \<Rightarrow> Inl KeyError | Some v \<Rightarrow> Inr v)"

fun py_iter :: "arg \<Rightarrow> string list" where
  "py_iter (Str s) = map (\<lambda>c. [c]) s"
| "py_iter (StrList xs) = xs"
| "py_iter (Spec d) = map fst d"

fun py_eq_str :: "arg \<Rightarrow> string \<Rightarrow> bool" where
  "py_eq_str (Str s) t = (s = t)"
| "py_eq_str (StrList xs) t = False"
| "py_eq_str (Spec d) t = False"

fun py_str_add :: "string \<Rightarrow> arg \<Rightarrow> pyexc + string" where
  "py_str_add a (Str s) = Inr (a @ s)"
| "py_str_add a (StrList xs) = Inl TypeError"
| "py_str_add a (Spec d) = Inl TypeError"

definition py_in :: "string \<Rightarrow> string \<Rightarrow> bool" where
  "py_in needle hay = sublist needle hay"

text \<open>\<^verbatim>\<open>os.path.join(a, b)\<close> of posixpath, for one component \<open>b\<close>.\<close>

definition os_path_join :: "string \<Rightarrow> string \<Rightarrow> string" where
  "os_path_join a b =
     (if prefix ''/'' b then b
      else if a = [] \<or> suffix ''/'' a then a @ b
      else a @ ''/'' @ b)"

text \<open>
  The host: the world \<open>'w\<close> is everything outside the process (files, installed packages,
  the process's working directory). \<open>run_command h w cmd cwd shell\<close> is
  \<^verbatim>\<open>module.run_command(cmd, cwd=cwd, use_unsafe_shell=shell)\<close>: it returns the exit code,
  standard output and standard error, and the world the subprocess leaves.
  \<open>chdir\<close> is \<^verbatim>\<open>os.chdir\<close> on a string (\<open>None\<close> when it raises \<^verbatim>\<open>OSError\<close>).
\<close>

record 'w host =
  path_exists :: "'w \<Rightarrow> string \<Rightarrow> bool"
  chdir :: "'w \<Rightarrow> string \<Rightarrow> 'w option"
  run_command :: "'w \<Rightarrow> string \<Rightarrow> string \<Rightarrow> bool \<Rightarrow> (int \<times> string \<times> string) \<times> 'w"

text \<open>
  Every subprocess invocation is logged with the step that made it, its command line, its
  working directory, whether it went through the shell, and the reply it gave (exit code,
  standard output, standard error).
\<close>

datatype step = Bootstrap | Audit | Install

datatype call =
  Call (call_step: step) (call_cmd: string) (call_cwd: string) (call_shell: bool)
       (call_reply: "int \<times> string \<times> string")

type_synonym 'w st = "'w \<times> call list"

definition ran :: "step \<Rightarrow> call list \<Rightarrow> bool" where
  "ran s tr = (s \<in> call_step ` set tr)"

definition module_run_command ::
  "'w host \<Rightarrow> step \<Rightarrow> string \<Rightarrow> string \<Rightarrow> bool \<Rightarrow> 'w st \<Rightarrow> (int \<times> string \<times> string) \<times> 'w st" where
  "module_run_command h s cmd cwd shell st =
     (case run_command h (fst st) cmd cwd shell of
        (r, w') \<Rightarrow> (r, (w', snd st @ [Call s cmd cwd shell r])))"

text \<open>
  The module object the framework's constructor builds from a task: the check-mode flag
  and the validated parameters (an option the task omits and the argument spec gives no
  default for is \<^verbatim>\<open>None\<close>).
\<close>

record 'p ansible_module =
  check_mode :: bool
  params :: 'p

text \<open>
  \<^verbatim>\<open>AnsibleModule(argument_spec=..., supports_check_mode=...)\<close> of
  \<^verbatim>\<open>ansible.module_utils.basic\<close>: a task run in check mode against a module that does
  not declare support for it is ended by the constructor as skipped.
\<close>

definition AnsibleModule :: "string \<Rightarrow> bool \<Rightarrow> 'p ansible_module \<Rightarrow> outcome + 'p ansible_module" where
  "AnsibleModule module_name supports_check_mode task =
     (if check_mode task \<and> \<not> supports_check_mode
      then Inl (Exit_json [(''skipped'', PyBool True),
                           (''msg'', PyStr (''remote module ('' @ module_name @ '') does not support check mode''))])
      else Inr task)"

definition declared_default :: "(string \<times> pydict) list \<Rightarrow> string \<Rightarrow> pyval option" where
  "declared_default module_args k =
     (case map_of module_args k of None \<Rightarrow> None | Some spec \<Rightarrow> map_of spec ''default'')"

section \<open>The extended variant: library/luadist\_wrapper.py\<close>

record wrapper_params =
  param_path :: string
  param_name :: "string list option"
  param_allow_dists :: string
  param_dists_repo :: string

definition wrapper_module_args :: "(string \<times> pydict) list" where
  "wrapper_module_args =
     [(''path'', [(''type'', PyStr ''str''), (''required'', PyBool True)]),
      (''name'', [(''type'', PyStr ''list''), (''elements'', PyStr ''str'')]),
      (''allow_dists'', [(''type'', PyStr ''str''), (''default'', PyStr ''all''),
                         (''choices'', PyList [PyStr ''all'', PyStr ''binary'', PyStr ''source''])]),
      (''dists_repo'', [(''type'', PyStr ''str''),
                        (''default'', PyStr ''git://github.com/LuaDist/Repository.git'')])]"

definition wrapper_luadist_is_present :: "'w host \<Rightarrow> string \<Rightarrow> 'w \<Rightarrow> bool" where
  "wrapper_luadist_is_present h path w =
     path_exists h w (os_path_join path ''LuaDist/bin/luadist'')"

definition wrapper_setup_luadist :: "'w host \<Rightarrow> string \<Rightarrow> 'w st \<Rightarrow> (outcome + unit) \<times> 'w st" where
  "wrapper_setup_luadist h path st =
     (let cmd = ''curl -fksSL https://tinyurl.com/luadist | bash'' in
      case module_run_command h Bootstrap cmd path True st of
        ((ret_code, out, err), st') \<Rightarrow>
          if \<not> wrapper_luadist_is_present h path (fst st')
          then (Inl (Fail_json [(''rc'', PyInt ret_code), (''stdout'', PyStr out), (''stderr'', PyStr err),
                                (''msg'', PyStr ''Cannot create LuaDist environment in the specified path.'')]),
                st')
          else (Inr (), st'))"

definition wrapper_is_present :: "'w host \<Rightarrow> string \<Rightarrow> string \<Rightarrow> 'w st \<Rightarrow> (outcome + bool) \<times> 'w st" where
  "wrapper_is_present h path pkgname st =
     (let cmd = ''./LuaDist/bin/luadist list '' @ pkgname in
      case module_run_command h Audit cmd path False st of
        ((ret_code, out, err), st') \<Rightarrow>
          if ret_code \<noteq> 0
          then (Inl (Fail_json [(''rc'', PyInt ret_code), (''stdout'', PyStr out), (''stderr'', PyStr err),
                                (''msg'', PyStr ''Cannot check the status of one or more packages.'')]),
                st')
          else (Inr (py_in pkgname out), st'))"

text \<open>The command line \<^verbatim>\<open>_install_packages\<close> builds before it runs it (lines 168 to 184).\<close>

definition wrapper_install_cmd :: "string list \<Rightarrow> string \<Rightarrow> string \<Rightarrow> string" where
  "wrapper_install_cmd packages allowed_dists repo =
     (let cmd = fold (\<lambda>package cmd. cmd @ (package @ '' '')) packages ''./LuaDist/bin/luadist install '';
          source_allowed = ''true'';
          binary_allowed = ''true'';
          (source_allowed, binary_allowed) =
             (if allowed_dists = ''binary'' then (''false'', binary_allowed)
              else if allowed_dists = ''source'' then (source_allowed, ''false'')
              else (source_allowed, binary_allowed));
          cmd = cmd @ ('' -source='' @ source_allowed @ '' -binary='' @ binary_allowed);
          cmd = cmd @ ('' -repos=\"'' @ repo @ ''\"'')
      in cmd)"

definition wrapper_install_packages ::
  "'w host \<Rightarrow> string \<Rightarrow> string list \<Rightarrow> string \<Rightarrow> string \<Rightarrow> 'w st \<Rightarrow> (outcome + string) \<times> 'w st" where
  "wrapper_install_packages h path packages allowed_dists repo st =
     (let cmd = wrapper_install_cmd packages allowed_dists repo in
      case module_run_command h Install cmd path False st of
        ((ret_code, out, err), st') \<Rightarrow>
          let already_installed = py_in ''No packages to install'' out in
          if ret_code \<noteq> 0 \<and> \<not> already_installed
          then (Inl (Fail_json [(''rc'', PyInt ret_code), (''stdout'', PyStr out), (''stderr'', PyStr err),
                                (''msg'', PyStr (''Cannot install one or more of the specified packages, ''
                                   @ ''make sure all packages exist in the configured repository.''))]),
                st')
          else (Inr cmd, st'))"

text \<open>
  The audit loop of \<^verbatim>\<open>run_module\<close> (lines 120 to 124): the value of \<^verbatim>\<open>all_present\<close>
  when the loop ends, the loop stopping at the first package that is not present.
\<close>

fun wrapper_all_present :: "'w host \<Rightarrow> string \<Rightarrow> string list \<Rightarrow> 'w st \<Rightarrow> (outcome + bool) \<times> 'w st" where
  "wrapper_all_present h path [] st = (Inr True, st)"
| "wrapper_all_present h path (package # rest) st =
     (case wrapper_is_present h path package st of
        (Inl e, st') \<Rightarrow> (Inl e, st')
      | (Inr present, st') \<Rightarrow>
          if \<not> present then (Inr False, st') else wrapper_all_present h path rest st')"

definition py_name :: "string list option \<Rightarrow> pyval" where
  "py_name packages = (case packages of None \<Rightarrow> PyNone | Some ps \<Rightarrow> PyList (map PyStr ps))"

definition wrapper_run_module :: "'w host \<Rightarrow> wrapper_params ansible_module \<Rightarrow> 'w \<Rightarrow> outcome \<times> 'w st" where
  "wrapper_run_module h task w =
     (case AnsibleModule ''luadist_wrapper'' False task of
        Inl ended \<Rightarrow> (ended, (w, []))
      | Inr module \<Rightarrow>
         (let path = param_path (params module);
              packages = param_name (params module);
              allow_dists = param_allow_dists (params module);
              dists_repo = param_dists_repo (params module);
              result = [(''changed'', PyBool False), (''cmd'', PyStr ''''),
                        (''env_path'', PyStr path), (''name'', py_name packages)]
          in
          case (if \<not> wrapper_luadist_is_present h path w
                then (case wrapper_setup_luadist h path (w, []) of
                        (Inl e, st) \<Rightarrow> (Inl e, st)
                      | (Inr u, st) \<Rightarrow> (Inr (AList.update ''changed'' (PyBool True) result), st))
                else (Inr result, (w, []))) of
            (Inl e, st) \<Rightarrow> (e, st)
          | (Inr result, st) \<Rightarrow>
             (case packages of
                None \<Rightarrow> (Raised TypeError, st)
              | Some pkgs \<Rightarrow>
                 (case wrapper_all_present h path pkgs st of
                    (Inl e, st) \<Rightarrow> (e, st)
                  | (Inr all_present, st) \<Rightarrow>
                     if \<not> all_present
                     then (case wrapper_install_packages h path pkgs allow_dists dists_repo st of
                             (Inl e, st) \<Rightarrow> (e, st)
                           | (Inr cmd, st) \<Rightarrow>
                               (Exit_json (AList.update ''cmd'' (PyStr cmd)
                                             (AList.update ''changed'' (PyBool True) result)), st))
                     else (Exit_json result, st)))))"

section \<open>The basic variant: library/luadist.py\<close>

definition basic_module_args :: "(string \<times> pydict) list" where
  "basic_module_args =
     [(''path'', [(''type'', PyStr ''str''), (''required'', PyBool True)]),
      (''package'', [(''type'', PyStr ''list''), (''elements'', PyStr ''str'')]),
      (''allow_dists'', [(''type'', PyStr ''str''), (''default'', PyStr ''all''),
                         (''choices'', PyList [PyStr ''all'', PyStr ''binary'', PyStr ''source''])]),
      (''dists_repo'', [(''type'', PyStr ''str''),
                        (''default'', PyStr ''git://github.com/LuaDist/Repository.git'')])]"

text \<open>
  \<^verbatim>\<open>run_command\<close> with the working directory the basic helpers pass on: it resolves
  \<^verbatim>\<open>cwd\<close> with \<^verbatim>\<open>os.path\<close> functions, which take a string.
\<close>

definition basic_run_command ::
  "'w host \<Rightarrow> step \<Rightarrow> string \<Rightarrow> arg \<Rightarrow> bool \<Rightarrow> 'w st \<Rightarrow> (outcome + int \<times> string \<times> string) \<times> 'w st" where
  "basic_run_command h s cmd cwd shell st =
     (case cwd of
        Str p \<Rightarrow> (case module_run_command h s cmd p shell st of (r, st') \<Rightarrow> (Inr r, st'))
      | StrList xs \<Rightarrow> (Inl (Raised TypeError), st)
      | Spec d \<Rightarrow> (Inl (Raised TypeError), st))"

text \<open>\<^verbatim>\<open>os.chdir(path)\<close> followed by \<^verbatim>\<open>os.path.exists("LuaDist/bin/luadist")\<close>.\<close>

definition basic_luadist_is_present :: "'w host \<Rightarrow> arg \<Rightarrow> 'w \<Rightarrow> (outcome + bool) \<times> 'w" where
  "basic_luadist_is_present h path w =
     (case path of
        Str p \<Rightarrow>
          (case chdir h w p of
             None \<Rightarrow> (Inl (Raised OSError), w)
           | Some w' \<Rightarrow> (Inr (path_exists h w' ''LuaDist/bin/luadist''), w'))
      | StrList xs \<Rightarrow> (Inl (Raised TypeError), w)
      | Spec d \<Rightarrow> (Inl (Raised TypeError), w))"

definition basic_setup_luadist :: "'w host \<Rightarrow> arg \<Rightarrow> 'w st \<Rightarrow> (outcome + unit) \<times> 'w st" where
  "basic_setup_luadist h path st =
     (let cmd = ''echo \"$(curl -fksSL https://tinyurl.com/luadist)\" | bash'' in
      case basic_run_command h Bootstrap cmd path False st of
        (Inl e, st') \<Rightarrow> (Inl e, st')
      | (Inr r, st') \<Rightarrow> (Inr (), st'))"

definition basic_is_present :: "'w host \<Rightarrow> arg \<Rightarrow> string \<Rightarrow> 'w st \<Rightarrow> (outcome + bool) \<times> 'w st" where
  "basic_is_present h path pkgname st =
     (let cmd = ''./LuaDist/bin/luadist list '' @ pkgname in
      case basic_run_command h Audit cmd path False st of
        (Inl e, st') \<Rightarrow> (Inl e, st')
      | (Inr (ret_code, out, err), st') \<Rightarrow> (Inr (py_in pkgname out), st'))"

text \<open>The command line of the basic \<^verbatim>\<open>_install_packages\<close> (lines 147 to 163).\<close>

definition basic_install_cmd :: "arg \<Rightarrow> arg \<Rightarrow> arg \<Rightarrow> pyexc + string" where
  "basic_install_cmd packages allowed_dists repo =
     (let cmd = fold (\<lambda>package cmd. cmd @ (package @ '' '')) (py_iter packages) ''./LuaDist/bin/luadist install '';
          source_allowed = ''true'';
          binary_allowed = ''true'';
          (source_allowed, binary_allowed) =
             (if py_eq_str allowed_dists ''binary'' then (''false'', binary_allowed)
              else if py_eq_str allowed_dists ''source'' then (source_allowed, ''false'')
              else (source_allowed, binary_allowed));
          cmd = cmd @ ('' -source='' @ source_allowed @ '' -binary='' @ binary_allowed)
      in case py_str_add '' --repo=\"'' repo of
           Inl e \<Rightarrow> Inl e
         | Inr r \<Rightarrow> Inr (cmd @ (r @ ''\"'')))"

definition basic_install_packages ::
  "'w host \<Rightarrow> arg \<Rightarrow> arg \<Rightarrow> arg \<Rightarrow> arg \<Rightarrow> 'w st \<Rightarrow> (outcome + unit) \<times> 'w st" where
  "basic_install_packages h path packages allowed_dists repo st =
     (case basic_install_cmd packages allowed_dists repo of
        Inl e \<Rightarrow> (Inl (Raised e), st)
      | Inr cmd \<Rightarrow>
         (case basic_run_command h Install cmd path False st of
            (Inl e, st') \<Rightarrow> (Inl e, st')
          | (Inr (ret_code, out, err), st') \<Rightarrow>
              if \<not> py_in ''Installation succesful'' out
              then (Inl (Fail_json [(''msg'', PyStr (''Cannot install one or more of the specified packages, ''
                                       @ ''make sure all packages exist in the configured repository.''))]),
                    st')
              else (Inr (), st')))"

text \<open>The audit loop of the basic \<^verbatim>\<open>run_module\<close> (lines 114 to 118).\<close>

fun basic_all_present :: "'w host \<Rightarrow> arg \<Rightarrow> string list \<Rightarrow> 'w st \<Rightarrow> (outcome + bool) \<times> 'w st" where
  "basic_all_present h path [] st = (Inr True, st)"
| "basic_all_present h path (package # rest) st =
     (case basic_is_present h path package st of
        (Inl e, st') \<Rightarrow> (Inl e, st')
      | (Inr present, st') \<Rightarrow>
          if \<not> present then (Inr False, st') else basic_all_present h path rest st')"

text \<open>
  \<^verbatim>\<open>run_module\<close> of the basic variant binds its four variables by subscripting
  \<^verbatim>\<open>module_args\<close>, the argument spec, and never reads \<^verbatim>\<open>module.params\<close>.
\<close>

definition basic_run_module :: "'w host \<Rightarrow> 'p ansible_module \<Rightarrow> 'w \<Rightarrow> outcome \<times> 'w st" where
  "basic_run_module h task w =
     (case AnsibleModule ''luadist'' True task of
        Inl ended \<Rightarrow> (ended, (w, []))
      | Inr module \<Rightarrow>
     (case py_getitem basic_module_args ''path'' of
        Inl e \<Rightarrow> (Raised e, (w, []))
      | Inr path \<Rightarrow>
     (case py_getitem basic_module_args ''package'' of
        Inl e \<Rightarrow> (Raised e, (w, []))
      | Inr packages \<Rightarrow>
     (case py_getitem basic_module_args ''allow_dists'' of
        Inl e \<Rightarrow> (Raised e, (w, []))
      | Inr allow_dists \<Rightarrow>
     (case py_getitem basic_module_args ''dists_repo'' of
        Inl e \<Rightarrow> (Raised e, (w, []))
      | Inr dists_repo \<Rightarrow>
         if check_mode module then (Exit_json [(''changed'', PyBool False)], (w, []))
         else
          (case basic_luadist_is_present h (Spec path) w of
             (Inl e, w1) \<Rightarrow> (e, (w1, []))
           | (Inr present, w1) \<Rightarrow>
              (case (if \<not> present
                     then (case basic_setup_luadist h (Spec path) (w1, []) of
                             (Inl e, st) \<Rightarrow> (Inl e, st)
                           | (Inr u, st) \<Rightarrow> (Inr True, st))
                     else (Inr False, (w1, []))) of
                 (Inl e, st) \<Rightarrow> (e, st)
               | (Inr state_changed, st) \<Rightarrow>
                  (case basic_all_present h (Spec path) (py_iter (Spec packages)) st of
                     (Inl e, st) \<Rightarrow> (e, st)
                   | (Inr all_present, st) \<Rightarrow>
                      if \<not> all_present
                      then (case basic_install_packages h (Spec path) (Spec packages)
                                   (Spec allow_dists) (Spec dists_repo) st of
                              (Inl e, st) \<Rightarrow> (e, st)
                            | (Inr u, st) \<Rightarrow> (Exit_json [(''changed'', PyBool True)], st))
                      else (Exit_json [(''changed'', PyBool state_changed)], st)))))))))"

section \<open>Reading a result\<close>

definition changed_field :: "outcome \<Rightarrow> pyval option" where
  "changed_field r = (case r of Exit_json d \<Rightarrow> map_of d ''changed'' | Fail_json d \<Rightarrow> None | Raised e \<Rightarrow> None)"

definition cmd_field :: "outcome \<Rightarrow> pyval option" where
  "cmd_field r = (case r of Exit_json d \<Rightarrow> map_of d ''cmd'' | Fail_json d \<Rightarrow> None | Raised e \<Rightarrow> None)"

fun is_exit :: "outcome \<Rightarrow> bool" where
  "is_exit (Exit_json d) = True"
| "is_exit (Fail_json d) = False"
| "is_exit (Raised e) = False"

section \<open>Scripted hosts for concrete runs\<close>

text \<open>
  A scripted host: the world is whether the LuaDist binary exists now, and a queue of
  pending subprocess replies, each with whether the binary exists once it has run. When
  the queue is empty every command gets the reply \<open>dflt\<close> and changes nothing.
\<close>

type_synonym script = "bool \<times> ((int \<times> string \<times> string) \<times> bool) list"

definition scripted_host :: "(int \<times> string \<times> string) \<Rightarrow> script host" where
  "scripted_host dflt =
     \<lparr> path_exists = (\<lambda>w p. fst w),
       chdir = (\<lambda>w p. Some w),
       run_command = (\<lambda>w cmd cwd shell.
          case snd w of [] \<Rightarrow> (dflt, w) | (r, b) # q \<Rightarrow> (r, (b, q))) \<rparr>"

text \<open>
  A host whose world never changes: LuaDist is installed, listing \<open>md5\<close> prints
  nothing, and any other command exits 1 saying there is nothing to install.
\<close>

definition frozen_host :: "unit host" where
  "frozen_host =
     \<lparr> path_exists = (\<lambda>w p. True),
       chdir = (\<lambda>w p. Some w),
       run_command = (\<lambda>w cmd cwd shell.
          if cmd = ''./LuaDist/bin/luadist list md5'' then ((0, '''', ''''), w)
          else ((1, ''No packages to install'', ''''), w)) \<rparr>"

text \<open>
  Hosts whose list queries change nothing. The world is whether the LuaDist binary exists
  and whether \<open>md5\<close> is installed: a list query prints \<open>md5 1.2\<close> when it is, the
  bootstrap command creates the binary, and any other command installs \<open>md5\<close>, leaving
  the binary in place if \<open>keeps\<close> and removing it otherwise.
\<close>

definition package_host :: "bool \<Rightarrow> (bool \<times> bool) host" where
  "package_host keeps =
     \<lparr> path_exists = (\<lambda>w p. fst w),
       chdir = (\<lambda>w p. Some w),
       run_command = (\<lambda>w cmd cwd shell.
          if prefix ''./LuaDist/bin/luadist list '' cmd
          then ((0, if snd w then ''md5 1.2'' else '''', ''''), w)
          else if cmd = ''curl -fksSL https://tinyurl.com/luadist | bash''
          then ((0, ''LuaDist installed'', ''''), (True, snd w))
          else ((0, ''Installation succesful'', ''''), (keeps \<and> fst w, True))) \<rparr>"

text \<open>Two requests for the package \<open>md5\<close> under \<open>/env\<close>.\<close>

definition md5_request :: wrapper_params where
  "md5_request =
     \<lparr> param_path = ''/env'', param_name = Some [''md5''], param_allow_dists = ''all'',
       param_dists_repo = ''git://github.com/LuaDist/Repository.git'' \<rparr>"

definition md5_binary_request :: wrapper_params where
  "md5_binary_request =
     \<lparr> param_path = ''/env'', param_name = Some [''md5''], param_allow_dists = ''binary'',
       param_dists_repo = ''git://example.org/repo.git'' \<rparr>"

text \<open>
  A request for the base environment only (an empty package list), and one that omits the
  package list.
\<close>

definition base_request :: wrapper_params where
  "base_request =
     \<lparr> param_path = ''/env'', param_name = Some [], param_allow_dists = ''all'',
       param_dists_repo = ''git://github.com/LuaDist/Repository.git'' \<rparr>"

definition no_list_request :: wrapper_params where
  "no_list_request =
     \<lparr> param_path = ''/env'', param_name = None, param_allow_dists = ''all'',
       param_dists_repo = ''git://github.com/LuaDist/Repository.git'' \<rparr>"

section \<open>The steps as equations\<close>

lemma module_run_command_eq:
  "module_run_command h s cmd cwd shell st =
     (fst (run_command h (fst st) cmd cwd shell),
      (snd (run_command h (fst st) cmd cwd shell),
       snd st @ [Call s cmd cwd shell (fst (run_command h (fst st) cmd cwd shell))]))"
  by (simp add: module_run_command_def split: prod.splits)

lemma wrapper_is_present_eq:
  "wrapper_is_present h path p st =
     (let cmd = ''./LuaDist/bin/luadist list '' @ p;
          reply = fst (run_command h (fst st) cmd path False);
          st' = (snd (run_command h (fst st) cmd path False), snd st @ [Call Audit cmd path False reply])
      in if fst reply \<noteq> 0
         then (Inl (Fail_json [(''rc'', PyInt (fst reply)), (''stdout'', PyStr (fst (snd reply))),
                               (''stderr'', PyStr (snd (snd reply))),
                               (''msg'', PyStr ''Cannot check the status of one or more packages.'')]), st')
         else (Inr (py_in p (fst (snd reply))), st'))"
  by (simp add: wrapper_is_present_def module_run_command_eq Let_def split: prod.splits)

lemma audit_Inr:
  "wrapper_all_present h path pkgs st = (Inr b, st') \<Longrightarrow>
     \<exists>calls. snd st' = snd st @ calls \<and>
       (\<forall>c\<in>set calls. call_step c = Audit \<and> call_cwd c = path \<and> fst (call_reply c) = 0)"
proof (induction pkgs arbitrary: st)
  case Nil
  then show ?case by simp
next
  case (Cons p ps)
  then show ?case
    by (fastforce simp: wrapper_is_present_eq Let_def split: if_splits)
qed

lemma audit_Inl:
  "wrapper_all_present h path pkgs st = (Inl e, st') \<Longrightarrow>
     \<exists>calls c. snd st' = snd st @ calls @ [c] \<and>
       (\<forall>c'\<in>set calls. call_step c' = Audit \<and> call_cwd c' = path \<and> fst (call_reply c') = 0) \<and>
       call_step c = Audit \<and> call_cwd c = path \<and> fst (call_reply c) \<noteq> 0 \<and>
       e = Fail_json [(''rc'', PyInt (fst (call_reply c))), (''stdout'', PyStr (fst (snd (call_reply c)))),
                      (''stderr'', PyStr (snd (snd (call_reply c)))),
                      (''msg'', PyStr ''Cannot check the status of one or more packages.'')]"
proof (induction pkgs arbitrary: st)
  case Nil
  then show ?case by simp
next
  case (Cons p ps)
  show ?case
  proof (cases "fst (fst (run_command h (fst st) (''./LuaDist/bin/luadist list '' @ p) path False)) = 0")
    case False
    with Cons.prems show ?thesis
      by (auto simp: wrapper_is_present_eq Let_def intro!: exI[of _ "[]"])
  next
    case True
    let ?cmd = "''./LuaDist/bin/luadist list '' @ p"
    let ?reply = "fst (run_command h (fst st) ?cmd path False)"
    let ?st1 = "(snd (run_command h (fst st) ?cmd path False), snd st @ [Call Audit ?cmd path False ?reply])"
    from True Cons.prems have rest: "wrapper_all_present h path ps ?st1 = (Inl e, st')"
      by (simp add: wrapper_is_present_eq Let_def split: if_splits)
    from Cons.IH[OF rest] obtain calls c where
      tr: "snd st' = snd ?st1 @ calls @ [c]" and
      ok: "\<forall>c'\<in>set calls. call_step c' = Audit \<and> call_cwd c' = path \<and> fst (call_reply c') = 0" and
      c: "call_step c = Audit" "call_cwd c = path" "fst (call_reply c) \<noteq> 0"
         "e = Fail_json [(''rc'', PyInt (fst (call_reply c))), (''stdout'', PyStr (fst (snd (call_reply c)))),
                      (''stderr'', PyStr (snd (snd (call_reply c)))),
                      (''msg'', PyStr ''Cannot check the status of one or more packages.'')]"
      by blast
    have "snd st' = snd st @ (Call Audit ?cmd path False ?reply # calls) @ [c]"
      using tr by simp
    moreover have "\<forall>c'\<in>set (Call Audit ?cmd path False ?reply # calls).
        call_step c' = Audit \<and> call_cwd c' = path \<and> fst (call_reply c') = 0"
      using ok True by simp
    ultimately show ?thesis using c by blast
  qed
qed


lemma wrapper_setup_luadist_eq:
  "wrapper_setup_luadist h path st =
     (let cmd = ''curl -fksSL https://tinyurl.com/luadist | bash'';
          reply = fst (run_command h (fst st) cmd path True);
          st' = (snd (run_command h (fst st) cmd path True), snd st @ [Call Bootstrap cmd path True reply])
      in if \<not> wrapper_luadist_is_present h path (fst st')
         then (Inl (Fail_json [(''rc'', PyInt (fst reply)), (''stdout'', PyStr (fst (snd reply))),
                               (''stderr'', PyStr (snd (snd reply))),
                               (''msg'', PyStr ''Cannot create LuaDist environment in the specified path.'')]), st')
         else (Inr (), st'))"
  by (simp add: wrapper_setup_luadist_def module_run_command_eq Let_def split: prod.splits)

lemma wrapper_install_packages_eq:
  "wrapper_install_packages h path packages allowed_dists repo st =
     (let cmd = wrapper_install_cmd packages allowed_dists repo;
          reply = fst (run_command h (fst st) cmd path False);
          st' = (snd (run_command h (fst st) cmd path False), snd st @ [Call Install cmd path False reply])
      in if fst reply \<noteq> 0 \<and> \<not> py_in ''No packages to install'' (fst (snd reply))
         then (Inl (Fail_json [(''rc'', PyInt (fst reply)), (''stdout'', PyStr (fst (snd reply))),
                               (''stderr'', PyStr (snd (snd reply))),
                               (''msg'', PyStr (''Cannot install one or more of the specified packages, ''
                                   @ ''make sure all packages exist in the configured repository.''))]), st')
         else (Inr cmd, st'))"
  by (simp add: wrapper_install_packages_def module_run_command_eq Let_def split: prod.splits)

lemma wrapper_run_module_check:
  "wrapper_run_module h \<lparr>check_mode = True, params = req\<rparr> w =
     (Exit_json [(''skipped'', PyBool True),
                 (''msg'', PyStr ''remote module (luadist_wrapper) does not support check mode'')], (w, []))"
  by (simp add: wrapper_run_module_def AnsibleModule_def)

lemma basic_run_command_Str:
  "basic_run_command h s cmd (Str p) shell st =
     (Inr (fst (run_command h (fst st) cmd p shell)),
      (snd (run_command h (fst st) cmd p shell),
       snd st @ [Call s cmd p shell (fst (run_command h (fst st) cmd p shell))]))"
  by (simp add: basic_run_command_def module_run_command_eq)

lemma wrapper_run_module_normal:
  "wrapper_run_module h \<lparr>check_mode = False, params = req\<rparr> w =
     (let path = param_path req;
          cmd0 = ''curl -fksSL https://tinyurl.com/luadist | bash'';
          reply0 = fst (run_command h w cmd0 path True);
          w1 = snd (run_command h w cmd0 path True);
          boot = Call Bootstrap cmd0 path True reply0;
          present0 = wrapper_luadist_is_present h path w;
          st0 = (if present0 then (w, []) else (w1, [boot]))
      in if \<not> present0 \<and> \<not> wrapper_luadist_is_present h path w1
         then (Fail_json [(''rc'', PyInt (fst reply0)), (''stdout'', PyStr (fst (snd reply0))),
                          (''stderr'', PyStr (snd (snd reply0))),
                          (''msg'', PyStr ''Cannot create LuaDist environment in the specified path.'')],
               (w1, [boot]))
         else (case param_name req of
                 None \<Rightarrow> (Raised TypeError, st0)
               | Some pkgs \<Rightarrow>
                  (case wrapper_all_present h path pkgs st0 of
                     (Inl e, st) \<Rightarrow> (e, st)
                   | (Inr all_present, st) \<Rightarrow>
                      if \<not> all_present
                      then (case wrapper_install_packages h path pkgs (param_allow_dists req) (param_dists_repo req) st of
                              (Inl e, st) \<Rightarrow> (e, st)
                            | (Inr cmd, st) \<Rightarrow>
                                (Exit_json [(''changed'', PyBool True), (''cmd'', PyStr cmd),
                                            (''env_path'', PyStr path), (''name'', py_name (param_name req))], st))
                      else (Exit_json [(''changed'', PyBool (\<not> present0)), (''cmd'', PyStr ''''),
                                       (''env_path'', PyStr path), (''name'', py_name (param_name req))], st))))"
  by (simp add: wrapper_run_module_def AnsibleModule_def Let_def wrapper_setup_luadist_eq
      split: option.splits prod.splits sum.splits)

lemma wrapper_run_module_shapes:
  assumes res: "res = wrapper_run_module h \<lparr>check_mode = False, params = req\<rparr> w"
    and w1: "w1 = snd (run_command h w ''curl -fksSL https://tinyurl.com/luadist | bash'' (param_path req) True)"
    and boot: "boot = Call Bootstrap ''curl -fksSL https://tinyurl.com/luadist | bash'' (param_path req) True
                 (fst (run_command h w ''curl -fksSL https://tinyurl.com/luadist | bash'' (param_path req) True))"
    and pre: "pre = (if wrapper_luadist_is_present h (param_path req) w then [] else [boot])"
  obtains
    (boot_failed) "\<not> wrapper_luadist_is_present h (param_path req) w"
      "\<not> wrapper_luadist_is_present h (param_path req) w1"
      "res = (Fail_json [(''rc'', PyInt (fst (call_reply boot))), (''stdout'', PyStr (fst (snd (call_reply boot)))),
                          (''stderr'', PyStr (snd (snd (call_reply boot)))),
                          (''msg'', PyStr ''Cannot create LuaDist environment in the specified path.'')],
               (w1, [boot]))"
  | (no_list) "param_name req = None"
      "res = (Raised TypeError, (if wrapper_luadist_is_present h (param_path req) w then w else w1, pre))"
  | (audit_failed) pkgs calls c w' where "param_name req = Some pkgs"
      "\<forall>c'\<in>set calls. call_step c' = Audit \<and> call_cwd c' = param_path req \<and> fst (call_reply c') = 0"
      "call_step c = Audit" "call_cwd c = param_path req" "fst (call_reply c) \<noteq> 0"
      "res = (Fail_json [(''rc'', PyInt (fst (call_reply c))), (''stdout'', PyStr (fst (snd (call_reply c)))),
                         (''stderr'', PyStr (snd (snd (call_reply c)))),
                         (''msg'', PyStr ''Cannot check the status of one or more packages.'')],
              (w', pre @ calls @ [c]))"
  | (converged) pkgs calls w' where "param_name req = Some pkgs"
      "\<forall>c'\<in>set calls. call_step c' = Audit \<and> call_cwd c' = param_path req \<and> fst (call_reply c') = 0"
      "res = (Exit_json [(''changed'', PyBool (\<not> wrapper_luadist_is_present h (param_path req) w)),
                         (''cmd'', PyStr ''''), (''env_path'', PyStr (param_path req)),
                         (''name'', py_name (param_name req))],
              (w', pre @ calls))"
  | (install_failed) pkgs calls reply w' where "param_name req = Some pkgs"
      "\<forall>c'\<in>set calls. call_step c' = Audit \<and> call_cwd c' = param_path req \<and> fst (call_reply c') = 0"
      "fst reply \<noteq> 0" "\<not> py_in ''No packages to install'' (fst (snd reply))"
      "res = (Fail_json [(''rc'', PyInt (fst reply)), (''stdout'', PyStr (fst (snd reply))),
                         (''stderr'', PyStr (snd (snd reply))),
                         (''msg'', PyStr (''Cannot install one or more of the specified packages, ''
                                   @ ''make sure all packages exist in the configured repository.''))],
              (w', pre @ calls @ [Call Install (wrapper_install_cmd pkgs (param_allow_dists req) (param_dists_repo req))
                                     (param_path req) False reply]))"
  | (installed) pkgs calls reply w' where "param_name req = Some pkgs"
      "\<forall>c'\<in>set calls. call_step c' = Audit \<and> call_cwd c' = param_path req \<and> fst (call_reply c') = 0"
      "fst reply = 0 \<or> py_in ''No packages to install'' (fst (snd reply))"
      "res = (Exit_json [(''changed'', PyBool True),
                         (''cmd'', PyStr (wrapper_install_cmd pkgs (param_allow_dists req) (param_dists_repo req))),
                         (''env_path'', PyStr (param_path req)), (''name'', py_name (param_name req))],
              (w', pre @ calls @ [Call Install (wrapper_install_cmd pkgs (param_allow_dists req) (param_dists_repo req))
                                     (param_path req) False reply]))"
proof -
  let ?path = "param_path req"
  let ?p0 = "wrapper_luadist_is_present h ?path w"
  let ?st0 = "(if ?p0 then (w, []) else (w1, [boot]))"
  have st0: "snd ?st0 = pre" "fst ?st0 = (if ?p0 then w else w1)"
    by (simp_all add: pre)
  note nf = wrapper_run_module_normal[of h req w, folded res, unfolded Let_def, folded w1 boot]
  show thesis
  proof (cases "\<not> ?p0 \<and> \<not> wrapper_luadist_is_present h ?path w1")
    case True
    then show thesis using nf boot by (intro boot_failed) simp_all
  next
    case ok: False
    show thesis
    proof (cases "param_name req")
      case None
      then show thesis using nf ok st0 by (intro no_list) (simp_all split: if_splits)
    next
      case (Some pkgs)
      obtain r st where audit: "wrapper_all_present h ?path pkgs ?st0 = (r, st)"
        by (cases "wrapper_all_present h ?path pkgs ?st0")
      have res1: "res = (case (r, st) of
                     (Inl e, st) \<Rightarrow> (e, st)
                   | (Inr all_present, st) \<Rightarrow>
                      if \<not> all_present
                      then (case wrapper_install_packages h ?path pkgs (param_allow_dists req) (param_dists_repo req) st of
                              (Inl e, st) \<Rightarrow> (e, st)
                            | (Inr cmd, st) \<Rightarrow>
                                (Exit_json [(''changed'', PyBool True), (''cmd'', PyStr cmd),
                                            (''env_path'', PyStr ?path), (''name'', py_name (param_name req))], st))
                      else (Exit_json [(''changed'', PyBool (\<not> ?p0)), (''cmd'', PyStr ''''),
                                       (''env_path'', PyStr ?path), (''name'', py_name (param_name req))], st))"
        using nf ok Some audit by simp
      show thesis
      proof (cases r)
        case (Inl e)
        from audit_Inl[OF audit[unfolded Inl]] obtain calls c where
          "snd st = snd ?st0 @ calls @ [c]"
          "\<forall>c'\<in>set calls. call_step c' = Audit \<and> call_cwd c' = ?path \<and> fst (call_reply c') = 0"
          "call_step c = Audit" "call_cwd c = ?path" "fst (call_reply c) \<noteq> 0"
          "e = Fail_json [(''rc'', PyInt (fst (call_reply c))), (''stdout'', PyStr (fst (snd (call_reply c)))),
                      (''stderr'', PyStr (snd (snd (call_reply c)))),
                      (''msg'', PyStr ''Cannot check the status of one or more packages.'')]"
          by blast
        then show thesis using res1 Inl Some st0
          by (intro audit_failed[of pkgs calls c "fst st"]) (simp_all add: prod_eq_iff)
      next
        case (Inr ap)
        from audit_Inr[OF audit[unfolded Inr]] obtain calls where
          calls: "snd st = snd ?st0 @ calls"
          "\<forall>c'\<in>set calls. call_step c' = Audit \<and> call_cwd c' = ?path \<and> fst (call_reply c') = 0"
          by blast
        show thesis
        proof (cases ap)
          case True
          then show thesis using res1 Inr Some st0 calls
            by (intro converged[of pkgs calls "fst st"]) (simp_all add: prod_eq_iff)
        next
          case False
          let ?cmd = "wrapper_install_cmd pkgs (param_allow_dists req) (param_dists_repo req)"
          let ?reply = "fst (run_command h (fst st) ?cmd ?path False)"
          let ?w' = "snd (run_command h (fst st) ?cmd ?path False)"
          show thesis
          proof (cases "fst ?reply \<noteq> 0 \<and> \<not> py_in ''No packages to install'' (fst (snd ?reply))")
            case True
            then show thesis using res1 Inr Some st0 calls \<open>\<not> ap\<close>
              by (intro install_failed[of pkgs calls ?reply ?w'])
                 (simp_all add: wrapper_install_packages_eq Let_def)
          next
            case False
            then show thesis using res1 Inr Some st0 calls \<open>\<not> ap\<close>
              by (intro installed[of pkgs calls ?reply ?w'])
                 (simp_all add: wrapper_install_packages_eq Let_def)
          qed
        qed
      qed
    qed
  qed
qed

lemma basic_run_module_normal:
  "basic_run_module h \<lparr>check_mode = False, params = p\<rparr> w = (Raised TypeError, (w, []))"
  by (simp add: basic_run_module_def AnsibleModule_def py_getitem_def basic_module_args_def
      basic_luadist_is_present_def)

lemma basic_run_module_check:
  "basic_run_module h \<lparr>check_mode = True, params = p\<rparr> w = (Exit_json [(''changed'', PyBool False)], (w, []))"
  by (simp add: basic_run_module_def AnsibleModule_def py_getitem_def basic_module_args_def)

lemma wrapper_all_present_stable:
  "\<forall>p\<in>set pkgs. fst (fst (run_command h w (''./LuaDist/bin/luadist list '' @ p) path False)) = 0
        \<and> py_in p (fst (snd (fst (run_command h w (''./LuaDist/bin/luadist list '' @ p) path False))))
        \<and> snd (run_command h w (''./LuaDist/bin/luadist list '' @ p) path False) = w \<Longrightarrow>
   wrapper_all_present h path pkgs (w, tr) =
     (Inr True, (w, tr @ map (\<lambda>p. Call Audit (''./LuaDist/bin/luadist list '' @ p) path False
                                  (fst (run_command h w (''./LuaDist/bin/luadist list '' @ p) path False))) pkgs))"
proof (induction pkgs arbitrary: tr)
  case Nil
  then show ?case by simp
next
  case (Cons p ps)
  then show ?case by (simp add: wrapper_is_present_eq Let_def)
qed

lemma wrapper_run_module_converged:
  assumes present: "wrapper_luadist_is_present h (param_path req) w"
    and pkgs: "param_name req = Some pkgs"
    and listed: "\<forall>p\<in>set pkgs.
        fst (fst (run_command h w (''./LuaDist/bin/luadist list '' @ p) (param_path req) False)) = 0
        \<and> py_in p (fst (snd (fst (run_command h w (''./LuaDist/bin/luadist list '' @ p) (param_path req) False))))
        \<and> snd (run_command h w (''./LuaDist/bin/luadist list '' @ p) (param_path req) False) = w"
  shows "wrapper_run_module h \<lparr>check_mode = False, params = req\<rparr> w =
     (Exit_json [(''changed'', PyBool False), (''cmd'', PyStr ''''), (''env_path'', PyStr (param_path req)),
                 (''name'', PyList (map PyStr pkgs))],
      (w, map (\<lambda>p. Call Audit (''./LuaDist/bin/luadist list '' @ p) (param_path req) False
                  (fst (run_command h w (''./LuaDist/bin/luadist list '' @ p) (param_path req) False))) pkgs))"
  using present pkgs wrapper_all_present_stable[OF listed, of "[]"]
  by (simp add: wrapper_run_module_normal Let_def py_name_def)

lemmas run_defs =
  wrapper_run_module_def basic_run_module_def AnsibleModule_def py_getitem_def
  wrapper_luadist_is_present_def wrapper_setup_luadist_def wrapper_is_present_def
  wrapper_install_packages_def wrapper_install_cmd_def module_run_command_def
  basic_module_args_def basic_luadist_is_present_def basic_setup_luadist_def basic_is_present_def
  basic_install_packages_def basic_install_cmd_def basic_run_command_def
  os_path_join_def py_in_def py_name_def changed_field_def cmd_field_def ran_def
  frozen_host_def scripted_host_def md5_request_def md5_binary_request_def Let_def
  base_request_def no_list_request_def declared_default_def wrapper_module_args_def
  sublist_code(3)

section \<open>The claims\<close>

text \<open>
  C1 (as amended). In the extended variant, whenever the install subprocess of a run exits
  non-zero, the run ends in the fatal install failure (carrying the exit code, standard
  output and standard error) if and only if the standard output does not contain
  \<open>No packages to install\<close>; when it does contain it, the run succeeds with
  \<open>changed = True\<close> and \<open>cmd\<close> set to the command that ran. The install step of the
  basic variant does not look at the exit code: it fails if and only if the standard
  output does not contain \<open>Installation succesful\<close>.
\<close>

theorem install_failure_rule:
  "(let res = wrapper_run_module h \<lparr>check_mode = False, params = req\<rparr> w in
    \<forall>c\<in>set (snd (snd res)). call_step c = Install \<and> fst (call_reply c) \<noteq> 0 \<longrightarrow>
      ((\<exists>d. fst res = Fail_json d) \<longleftrightarrow> \<not> py_in ''No packages to install'' (fst (snd (call_reply c)))) \<and>
      (\<not> py_in ''No packages to install'' (fst (snd (call_reply c))) \<longrightarrow>
         fst res = Fail_json [(''rc'', PyInt (fst (call_reply c))), (''stdout'', PyStr (fst (snd (call_reply c)))),
                    (''stderr'', PyStr (snd (snd (call_reply c)))),
                    (''msg'', PyStr (''Cannot install one or more of the specified packages, ''
                                   @ ''make sure all packages exist in the configured repository.''))]) \<and>
      (py_in ''No packages to install'' (fst (snd (call_reply c))) \<longrightarrow>
         fst res = Exit_json [(''changed'', PyBool True), (''cmd'', PyStr (call_cmd c)),
                    (''env_path'', PyStr (param_path req)), (''name'', py_name (param_name req))]))
   \<and> (basic_install_cmd packages allowed_dists repo = Inr cmd \<longrightarrow>
        (let reply = fst (run_command h' (fst st) cmd p False);
             st' = (snd (run_command h' (fst st) cmd p False), snd st @ [Call Install cmd p False reply])
         in basic_install_packages h' (Str p) packages allowed_dists repo st =
            (if \<not> py_in ''Installation succesful'' (fst (snd reply))
             then (Inl (Fail_json [(''msg'', PyStr (''Cannot install one or more of the specified packages, ''
                                       @ ''make sure all packages exist in the configured repository.''))]), st')
             else (Inr (), st'))))"
proof (intro conjI)
  define res where "res = wrapper_run_module h \<lparr>check_mode = False, params = req\<rparr> w"
  have "\<forall>c\<in>set (snd (snd res)). call_step c = Install \<and> fst (call_reply c) \<noteq> 0 \<longrightarrow>
      ((\<exists>d. fst res = Fail_json d) \<longleftrightarrow> \<not> py_in ''No packages to install'' (fst (snd (call_reply c)))) \<and>
      (\<not> py_in ''No packages to install'' (fst (snd (call_reply c))) \<longrightarrow>
         fst res = Fail_json [(''rc'', PyInt (fst (call_reply c))), (''stdout'', PyStr (fst (snd (call_reply c)))),
                    (''stderr'', PyStr (snd (snd (call_reply c)))),
                    (''msg'', PyStr (''Cannot install one or more of the specified packages, ''
                                   @ ''make sure all packages exist in the configured repository.''))]) \<and>
      (py_in ''No packages to install'' (fst (snd (call_reply c))) \<longrightarrow>
         fst res = Exit_json [(''changed'', PyBool True), (''cmd'', PyStr (call_cmd c)),
                    (''env_path'', PyStr (param_path req)), (''name'', py_name (param_name req))])"
    by (cases rule: wrapper_run_module_shapes[OF res_def refl refl refl]) (auto split: if_splits)
  then show "let res = wrapper_run_module h \<lparr>check_mode = False, params = req\<rparr> w in
    \<forall>c\<in>set (snd (snd res)). call_step c = Install \<and> fst (call_reply c) \<noteq> 0 \<longrightarrow>
      ((\<exists>d. fst res = Fail_json d) \<longleftrightarrow> \<not> py_in ''No packages to install'' (fst (snd (call_reply c)))) \<and>
      (\<not> py_in ''No packages to install'' (fst (snd (call_reply c))) \<longrightarrow>
         fst res = Fail_json [(''rc'', PyInt (fst (call_reply c))), (''stdout'', PyStr (fst (snd (call_reply c)))),
                    (''stderr'', PyStr (snd (snd (call_reply c)))),
                    (''msg'', PyStr (''Cannot install one or more of the specified packages, ''
                                   @ ''make sure all packages exist in the configured repository.''))]) \<and>
      (py_in ''No packages to install'' (fst (snd (call_reply c))) \<longrightarrow>
         fst res = Exit_json [(''changed'', PyBool True), (''cmd'', PyStr (call_cmd c)),
                    (''env_path'', PyStr (param_path req)), (''name'', py_name (param_name req))])"
    unfolding res_def Let_def .
next
  show "basic_install_cmd packages allowed_dists repo = Inr cmd \<longrightarrow>
        (let reply = fst (run_command h' (fst st) cmd p False);
             st' = (snd (run_command h' (fst st) cmd p False), snd st @ [Call Install cmd p False reply])
         in basic_install_packages h' (Str p) packages allowed_dists repo st =
            (if \<not> py_in ''Installation succesful'' (fst (snd reply))
             then (Inl (Fail_json [(''msg'', PyStr (''Cannot install one or more of the specified packages, ''
                                       @ ''make sure all packages exist in the configured repository.''))]), st')
             else (Inr (), st')))"
    by (simp add: basic_install_packages_def basic_run_command_Str Let_def split: prod.splits)
qed

text \<open>
  Witness: on the frozen host the install of \<open>md5\<close> exits 1 with the no-op phrase and
  the extended run succeeds; the basic install step, given exit code 0 and a standard output
  without its success phrase, fails.
\<close>

theorem install_failure_rule_witness:
  "Call Install ''./LuaDist/bin/luadist install md5  -source=true -binary=true -repos=\"git://github.com/LuaDist/Repository.git\"''
       ''/env'' False (1, ''No packages to install'', '''')
     \<in> set (snd (snd (wrapper_run_module frozen_host \<lparr>check_mode = False, params = md5_request\<rparr> ())))
   \<and> py_in ''No packages to install'' ''No packages to install''
   \<and> fst (wrapper_run_module frozen_host \<lparr>check_mode = False, params = md5_request\<rparr> ()) =
       Exit_json [(''changed'', PyBool True),
                  (''cmd'', PyStr ''./LuaDist/bin/luadist install md5  -source=true -binary=true -repos=\"git://github.com/LuaDist/Repository.git\"''),
                  (''env_path'', PyStr ''/env''), (''name'', PyList [PyStr ''md5''])]
   \<and> basic_install_cmd (StrList [''md5'']) (Str ''all'') (Str ''git://github.com/LuaDist/Repository.git'') =
       Inr ''./LuaDist/bin/luadist install md5  -source=true -binary=true --repo=\"git://github.com/LuaDist/Repository.git\"''
   \<and> basic_install_packages (scripted_host (0, ''md5 is up to date'', '''')) (Str ''/env'') (StrList [''md5''])
         (Str ''all'') (Str ''git://github.com/LuaDist/Repository.git'') ((True, []), []) =
       (Inl (Fail_json [(''msg'', PyStr ''Cannot install one or more of the specified packages, make sure all packages exist in the configured repository.'')]),
        ((True, []),
         [Call Install ''./LuaDist/bin/luadist install md5  -source=true -binary=true --repo=\"git://github.com/LuaDist/Repository.git\"''
            ''/env'' False (0, ''md5 is up to date'', '''')]))"
  using install_failure_rule[where h = frozen_host and req = md5_request and w = "()"
      and packages = "StrList [''md5'']" and allowed_dists = "Str ''all''"
      and repo = "Str ''git://github.com/LuaDist/Repository.git''"
      and cmd = "''./LuaDist/bin/luadist install md5  -source=true -binary=true --repo=\"git://github.com/LuaDist/Repository.git\"''"
      and h' = "scripted_host (0, ''md5 is up to date'', '''')" and st = "((True, []), [])" and p = "''/env''"]
  by (simp add: run_defs)

text \<open>
  Counterexample to C1 as stated. On the frozen host LuaDist is present, so no bootstrap
  occurs, and the install exits 1 with the no-op phrase: the extended run reports
  \<open>changed = True\<close>, which does not reflect whether bootstrap occurred. The basic install
  step, given exit code 1 and the no-op phrase, fails.
\<close>

theorem install_noop_counterexample:
  "snd (snd (wrapper_run_module frozen_host \<lparr>check_mode = False, params = md5_request\<rparr> ())) =
     [Call Audit ''./LuaDist/bin/luadist list md5'' ''/env'' False (0, '''', ''''),
      Call Install ''./LuaDist/bin/luadist install md5  -source=true -binary=true -repos=\"git://github.com/LuaDist/Repository.git\"''
        ''/env'' False (1, ''No packages to install'', '''')]
   \<and> changed_field (fst (wrapper_run_module frozen_host \<lparr>check_mode = False, params = md5_request\<rparr> ())) =
       Some (PyBool True)
   \<and> fst (basic_install_packages (scripted_host (1, ''No packages to install'', '''')) (Str ''/env'')
            (StrList [''md5'']) (Str ''all'') (Str ''git://github.com/LuaDist/Repository.git'') ((True, []), [])) =
       Inl (Fail_json [(''msg'', PyStr ''Cannot install one or more of the specified packages, make sure all packages exist in the configured repository.'')])"
  by (simp add: run_defs)

text \<open>
  C2 (the basic variant breaks it). \<^verbatim>\<open>run_module\<close> of the basic variant binds
  \<^verbatim>\<open>path\<close> to \<^verbatim>\<open>module_args["path"]\<close>, the option's spec, so the first presence check
  calls \<^verbatim>\<open>os.chdir\<close> on a dictionary: the run raises \<^verbatim>\<open>TypeError\<close> before any
  subprocess, whatever the request says.
\<close>

theorem basic_run_module_reads_module_args:
  "py_getitem basic_module_args ''path'' = Inr [(''type'', PyStr ''str''), (''required'', PyBool True)]
   \<and> basic_run_module (scripted_host (0, '''', '''')) \<lparr>check_mode = False, params = md5_request\<rparr> (True, []) =
       (Raised TypeError, ((True, []), []))"
  by (simp add: basic_run_module_normal) (simp add: py_getitem_def basic_module_args_def)

text \<open>
  C5 (as amended). A check-mode task runs no subprocess in either variant. The basic
  variant reports \<open>changed = False\<close>; the extended variant does not declare check-mode
  support, so the framework ends it as skipped, with a message and without a
  \<open>changed\<close> field.
\<close>

theorem check_mode_runs_nothing:
  "basic_run_module h \<lparr>check_mode = True, params = p\<rparr> w =
     (Exit_json [(''changed'', PyBool False)], (w, []))
   \<and> wrapper_run_module h' \<lparr>check_mode = True, params = req\<rparr> w' =
     (Exit_json [(''skipped'', PyBool True),
                 (''msg'', PyStr ''remote module (luadist_wrapper) does not support check mode'')], (w', []))"
  by (simp add: basic_run_module_check wrapper_run_module_check)

theorem check_mode_runs_nothing_witness:
  "basic_run_module (scripted_host (0, '''', '''')) \<lparr>check_mode = True, params = md5_request\<rparr> (False, []) =
     (Exit_json [(''changed'', PyBool False)], ((False, []), []))
   \<and> wrapper_run_module (scripted_host (0, '''', '''')) \<lparr>check_mode = True, params = md5_request\<rparr> (False, []) =
     (Exit_json [(''skipped'', PyBool True),
                 (''msg'', PyStr ''remote module (luadist_wrapper) does not support check mode'')], ((False, []), []))"
  using check_mode_runs_nothing[where h = "scripted_host (0, '''', '''')" and p = md5_request and w = "(False, [])"
      and h' = "scripted_host (0, '''', '''')" and req = md5_request and w' = "(False, [])"]
  by simp

text \<open>
  Counterexample to C5 as stated: the extended variant's check-mode result carries no
  \<open>changed\<close> field.
\<close>

theorem wrapper_check_mode_counterexample:
  "fst (wrapper_run_module (scripted_host (0, '''', '''')) \<lparr>check_mode = True, params = md5_request\<rparr> (False, [])) =
     Exit_json [(''skipped'', PyBool True),
                (''msg'', PyStr ''remote module (luadist_wrapper) does not support check mode'')]
   \<and> changed_field (fst (wrapper_run_module (scripted_host (0, '''', '''')) \<lparr>check_mode = True, params = md5_request\<rparr> (False, []))) = None"
  by (simp add: run_defs)

text \<open>
  C3 (as amended). In the extended variant, a run that finds the LuaDist binary absent
  starts with the bootstrap subprocess, run once in the request's path, and checks presence
  again; if the binary is still absent the run fails with the exit code, standard output
  and standard error of that subprocess, and the bootstrap is its only subprocess. The
  bootstrap step of the basic variant runs its command once and returns, without a second
  presence check and without a failure of its own.
\<close>

theorem bootstrap_failure_is_fatal:
  "(\<not> wrapper_luadist_is_present h (param_path req) w \<longrightarrow>
     (let cmd = ''curl -fksSL https://tinyurl.com/luadist | bash'';
          reply = fst (run_command h w cmd (param_path req) True);
          w1 = snd (run_command h w cmd (param_path req) True);
          boot = Call Bootstrap cmd (param_path req) True reply;
          res = wrapper_run_module h \<lparr>check_mode = False, params = req\<rparr> w
      in (\<exists>rest. snd (snd res) = boot # rest \<and> \<not> ran Bootstrap rest) \<and>
         (\<not> wrapper_luadist_is_present h (param_path req) w1 \<longrightarrow>
            res = (Fail_json [(''rc'', PyInt (fst reply)), (''stdout'', PyStr (fst (snd reply))),
                              (''stderr'', PyStr (snd (snd reply))),
                              (''msg'', PyStr ''Cannot create LuaDist environment in the specified path.'')],
                   (w1, [boot])))))
   \<and> basic_setup_luadist h' (Str p) st =
       (Inr (),
        (snd (run_command h' (fst st) ''echo \"$(curl -fksSL https://tinyurl.com/luadist)\" | bash'' p False),
         snd st @ [Call Bootstrap ''echo \"$(curl -fksSL https://tinyurl.com/luadist)\" | bash'' p False
                     (fst (run_command h' (fst st) ''echo \"$(curl -fksSL https://tinyurl.com/luadist)\" | bash'' p False))]))"
proof (intro conjI impI)
  assume absent: "\<not> wrapper_luadist_is_present h (param_path req) w"
  define res where "res = wrapper_run_module h \<lparr>check_mode = False, params = req\<rparr> w"
  define w1 where "w1 = snd (run_command h w ''curl -fksSL https://tinyurl.com/luadist | bash'' (param_path req) True)"
  define boot where "boot = Call Bootstrap ''curl -fksSL https://tinyurl.com/luadist | bash'' (param_path req) True
                 (fst (run_command h w ''curl -fksSL https://tinyurl.com/luadist | bash'' (param_path req) True))"
  have a: "\<exists>rest. snd (snd res) = boot # rest \<and> \<not> ran Bootstrap rest"
    using absent
    by (cases rule: wrapper_run_module_shapes[OF res_def w1_def boot_def refl])
       (auto simp: ran_def image_iff)
  have b: "\<not> wrapper_luadist_is_present h (param_path req) w1 \<longrightarrow>
            res = (Fail_json [(''rc'', PyInt (fst (call_reply boot))), (''stdout'', PyStr (fst (snd (call_reply boot)))),
                              (''stderr'', PyStr (snd (snd (call_reply boot)))),
                              (''msg'', PyStr ''Cannot create LuaDist environment in the specified path.'')],
                   (w1, [boot]))"
    using absent
    by (simp add: res_def wrapper_run_module_normal Let_def w1_def boot_def)
  show "let cmd = ''curl -fksSL https://tinyurl.com/luadist | bash'';
          reply = fst (run_command h w cmd (param_path req) True);
          w1 = snd (run_command h w cmd (param_path req) True);
          boot = Call Bootstrap cmd (param_path req) True reply;
          res = wrapper_run_module h \<lparr>check_mode = False, params = req\<rparr> w
      in (\<exists>rest. snd (snd res) = boot # rest \<and> \<not> ran Bootstrap rest) \<and>
         (\<not> wrapper_luadist_is_present h (param_path req) w1 \<longrightarrow>
            res = (Fail_json [(''rc'', PyInt (fst reply)), (''stdout'', PyStr (fst (snd reply))),
                              (''stderr'', PyStr (snd (snd reply))),
                              (''msg'', PyStr ''Cannot create LuaDist environment in the specified path.'')],
                   (w1, [boot])))"
    using a b unfolding Let_def res_def w1_def boot_def by simp
next
  show "basic_setup_luadist h' (Str p) st =
       (Inr (),
        (snd (run_command h' (fst st) ''echo \"$(curl -fksSL https://tinyurl.com/luadist)\" | bash'' p False),
         snd st @ [Call Bootstrap ''echo \"$(curl -fksSL https://tinyurl.com/luadist)\" | bash'' p False
                     (fst (run_command h' (fst st) ''echo \"$(curl -fksSL https://tinyurl.com/luadist)\" | bash'' p False))]))"
    by (simp add: basic_setup_luadist_def basic_run_command_Str Let_def)
qed

text \<open>
  Witness: the binary is absent and the bootstrap, exiting 7, leaves it absent; the
  extended run fails with that reply after this one subprocess.
\<close>

theorem bootstrap_failure_is_fatal_witness:
  "\<not> wrapper_luadist_is_present (scripted_host (0, '''', '''')) ''/env''
        (False, [((7, '''', ''curl: (7) Failed to connect''), False)])
   \<and> \<not> wrapper_luadist_is_present (scripted_host (0, '''', '''')) ''/env'' (False, [])
   \<and> wrapper_run_module (scripted_host (0, '''', '''')) \<lparr>check_mode = False, params = md5_request\<rparr>
        (False, [((7, '''', ''curl: (7) Failed to connect''), False)]) =
       (Fail_json [(''rc'', PyInt 7), (''stdout'', PyStr ''''), (''stderr'', PyStr ''curl: (7) Failed to connect''),
                   (''msg'', PyStr ''Cannot create LuaDist environment in the specified path.'')],
        ((False, []),
         [Call Bootstrap ''curl -fksSL https://tinyurl.com/luadist | bash'' ''/env'' True
            (7, '''', ''curl: (7) Failed to connect'')]))"
  using bootstrap_failure_is_fatal[where h = "scripted_host (0, '''', '''')" and req = md5_request
      and w = "(False, [((7, '''', ''curl: (7) Failed to connect''), False)])"
      and h' = "scripted_host (0, '''', '''')" and p = "''/env''" and st = "((False, []), [])"]
  by (simp add: run_defs)

text \<open>
  Counterexample to C3 as stated: the binary is absent before and after the bootstrap step
  of the basic variant, whose subprocess exits 1, and the step returns normally.
\<close>

theorem basic_setup_luadist_counterexample:
  "\<not> path_exists (scripted_host (1, '''', ''bash: command not found'')) (False, []) ''LuaDist/bin/luadist''
   \<and> basic_setup_luadist (scripted_host (1, '''', ''bash: command not found'')) (Str ''/env'') ((False, []), []) =
       (Inr (),
        ((False, []),
         [Call Bootstrap ''echo \"$(curl -fksSL https://tinyurl.com/luadist)\" | bash'' ''/env'' False
            (1, '''', ''bash: command not found'')]))"
  by (simp add: run_defs)

text \<open>
  C4 (as amended). In the extended variant, a package-list subprocess that exits non-zero
  ends the run in the fatal audit failure, carrying its exit code, standard output and
  standard error; it is the last subprocess of the run, no install ran, and every audit
  before it exited 0. When the list subprocess exits 0 the package is judged present if and
  only if its name is a substring of the standard output. The basic variant does not look
  at the exit code: it judges presence by that substring test alone and never fails here.
\<close>

theorem audit_failure_is_fatal:
  "(let res = wrapper_run_module h \<lparr>check_mode = False, params = req\<rparr> w in
    \<forall>c\<in>set (snd (snd res)). call_step c = Audit \<and> fst (call_reply c) \<noteq> 0 \<longrightarrow>
      fst res = Fail_json [(''rc'', PyInt (fst (call_reply c))), (''stdout'', PyStr (fst (snd (call_reply c)))),
                           (''stderr'', PyStr (snd (snd (call_reply c)))),
                           (''msg'', PyStr ''Cannot check the status of one or more packages.'')]
      \<and> (\<exists>pre. snd (snd res) = pre @ [c] \<and> \<not> ran Install pre
            \<and> (\<forall>c'\<in>set pre. call_step c' = Audit \<longrightarrow> fst (call_reply c') = 0)))
   \<and> (fst (fst (run_command h (fst st) (''./LuaDist/bin/luadist list '' @ pkgname) path False)) = 0 \<longrightarrow>
        (\<exists>st'. wrapper_is_present h path pkgname st =
           (Inr (\<exists>a b. fst (snd (fst (run_command h (fst st) (''./LuaDist/bin/luadist list '' @ pkgname) path False)))
                          = a @ pkgname @ b), st')))
   \<and> (\<exists>st'. basic_is_present h' (Str path) pkgname stb =
           (Inr (\<exists>a b. fst (snd (fst (run_command h' (fst stb) (''./LuaDist/bin/luadist list '' @ pkgname) path False)))
                          = a @ pkgname @ b), st'))"
proof (intro conjI)
  define res where "res = wrapper_run_module h \<lparr>check_mode = False, params = req\<rparr> w"
  define w1 where "w1 = snd (run_command h w ''curl -fksSL https://tinyurl.com/luadist | bash'' (param_path req) True)"
  define boot where "boot = Call Bootstrap ''curl -fksSL https://tinyurl.com/luadist | bash'' (param_path req) True
                 (fst (run_command h w ''curl -fksSL https://tinyurl.com/luadist | bash'' (param_path req) True))"
  define pre where "pre = (if wrapper_luadist_is_present h (param_path req) w then [] else [boot])"
  have pre_steps: "\<forall>c'\<in>set pre. call_step c' = Bootstrap"
    by (simp add: pre_def boot_def)
  from res_def w1_def boot_def pre_def
  have "\<forall>c\<in>set (snd (snd res)). call_step c = Audit \<and> fst (call_reply c) \<noteq> 0 \<longrightarrow>
      fst res = Fail_json [(''rc'', PyInt (fst (call_reply c))), (''stdout'', PyStr (fst (snd (call_reply c)))),
                           (''stderr'', PyStr (snd (snd (call_reply c)))),
                           (''msg'', PyStr ''Cannot check the status of one or more packages.'')]
      \<and> (\<exists>pre. snd (snd res) = pre @ [c] \<and> \<not> ran Install pre
            \<and> (\<forall>c'\<in>set pre. call_step c' = Audit \<longrightarrow> fst (call_reply c') = 0))"
  proof (cases rule: wrapper_run_module_shapes)
    case boot_failed
    then have "snd (snd res) = [boot]" by simp
    then show ?thesis by (simp add: boot_def)
  next
    case no_list
    then have "snd (snd res) = pre" by simp
    then show ?thesis using pre_steps by fastforce
  next
    case (audit_failed pkgs calls c w')
    have tr: "snd (snd res) = (pre @ calls) @ [c]"
      using audit_failed(6) by simp
    have out: "fst res = Fail_json [(''rc'', PyInt (fst (call_reply c))), (''stdout'', PyStr (fst (snd (call_reply c)))),
                           (''stderr'', PyStr (snd (snd (call_reply c)))),
                           (''msg'', PyStr ''Cannot check the status of one or more packages.'')]"
      using audit_failed(6) by simp
    have p1: "\<not> ran Install (pre @ calls)"
      using audit_failed(2) pre_steps by (fastforce simp: ran_def)
    have p2: "\<forall>c'\<in>set (pre @ calls). call_step c' = Audit \<longrightarrow> fst (call_reply c') = 0"
      using audit_failed(2) pre_steps by fastforce
    have only: "\<forall>c'\<in>set (snd (snd res)). call_step c' = Audit \<and> fst (call_reply c') \<noteq> 0 \<longrightarrow> c' = c"
      unfolding tr using p2 by fastforce
    show ?thesis
    proof (intro ballI impI)
      fix c' assume "c' \<in> set (snd (snd res))" "call_step c' = Audit \<and> fst (call_reply c') \<noteq> 0"
      with only have "c' = c" by blast
      then show "fst res = Fail_json [(''rc'', PyInt (fst (call_reply c'))), (''stdout'', PyStr (fst (snd (call_reply c')))),
                           (''stderr'', PyStr (snd (snd (call_reply c')))),
                           (''msg'', PyStr ''Cannot check the status of one or more packages.'')]
          \<and> (\<exists>pre. snd (snd res) = pre @ [c'] \<and> \<not> ran Install pre
            \<and> (\<forall>c'\<in>set pre. call_step c' = Audit \<longrightarrow> fst (call_reply c') = 0))"
        using out tr p1 p2 by blast
    qed
  next
    case (converged pkgs calls w')
    then have "snd (snd res) = pre @ calls" by simp
    then show ?thesis using pre_steps converged(2) by fastforce
  next
    case (install_failed pkgs calls reply w')
    then have "snd (snd res) = pre @ calls @ [Call Install (wrapper_install_cmd pkgs (param_allow_dists req) (param_dists_repo req))
                                     (param_path req) False reply]" by simp
    then show ?thesis using pre_steps install_failed(2) by fastforce
  next
    case (installed pkgs calls reply w')
    then have "snd (snd res) = pre @ calls @ [Call Install (wrapper_install_cmd pkgs (param_allow_dists req) (param_dists_repo req))
                                     (param_path req) False reply]" by simp
    then show ?thesis using pre_steps installed(2) by fastforce
  qed
  then show "let res = wrapper_run_module h \<lparr>check_mode = False, params = req\<rparr> w in
    \<forall>c\<in>set (snd (snd res)). call_step c = Audit \<and> fst (call_reply c) \<noteq> 0 \<longrightarrow>
      fst res = Fail_json [(''rc'', PyInt (fst (call_reply c))), (''stdout'', PyStr (fst (snd (call_reply c)))),
                           (''stderr'', PyStr (snd (snd (call_reply c)))),
                           (''msg'', PyStr ''Cannot check the status of one or more packages.'')]
      \<and> (\<exists>pre. snd (snd res) = pre @ [c] \<and> \<not> ran Install pre
            \<and> (\<forall>c'\<in>set pre. call_step c' = Audit \<longrightarrow> fst (call_reply c') = 0))"
    unfolding res_def Let_def .
next
  show "fst (fst (run_command h (fst st) (''./LuaDist/bin/luadist list '' @ pkgname) path False)) = 0 \<longrightarrow>
        (\<exists>st'. wrapper_is_present h path pkgname st =
           (Inr (\<exists>a b. fst (snd (fst (run_command h (fst st) (''./LuaDist/bin/luadist list '' @ pkgname) path False)))
                          = a @ pkgname @ b), st'))"
    by (simp add: wrapper_is_present_eq Let_def py_in_def sublist_def)
next
  show "\<exists>st'. basic_is_present h' (Str path) pkgname stb =
           (Inr (\<exists>a b. fst (snd (fst (run_command h' (fst stb) (''./LuaDist/bin/luadist list '' @ pkgname) path False)))
                          = a @ pkgname @ b), st')"
    by (simp add: basic_is_present_def basic_run_command_Str Let_def py_in_def sublist_def split: prod.splits)
qed

text \<open>
  Witness: LuaDist is present and listing \<open>md5\<close> exits 2; the extended run fails with
  that reply and runs nothing else. A listing that exits 0 and prints \<open>md5 1.2\<close>
  judges \<open>md5\<close> present.
\<close>

theorem audit_failure_is_fatal_witness:
  "wrapper_run_module (scripted_host (0, '''', '''')) \<lparr>check_mode = False, params = md5_request\<rparr>
        (True, [((2, '''', ''Error: no manifest''), True)]) =
       (Fail_json [(''rc'', PyInt 2), (''stdout'', PyStr ''''), (''stderr'', PyStr ''Error: no manifest''),
                   (''msg'', PyStr ''Cannot check the status of one or more packages.'')],
        ((True, []),
         [Call Audit ''./LuaDist/bin/luadist list md5'' ''/env'' False (2, '''', ''Error: no manifest'')]))
   \<and> wrapper_is_present (scripted_host (0, ''md5 1.2'', '''')) ''/env'' ''md5'' ((True, []), []) =
       (Inr True, ((True, []), [Call Audit ''./LuaDist/bin/luadist list md5'' ''/env'' False (0, ''md5 1.2'', '''')]))
   \<and> basic_is_present (scripted_host (0, ''md5 1.2'', '''')) (Str ''/env'') ''md5'' ((True, []), []) =
       (Inr True, ((True, []), [Call Audit ''./LuaDist/bin/luadist list md5'' ''/env'' False (0, ''md5 1.2'', '''')]))"
  using audit_failure_is_fatal[where h = "scripted_host (0, '''', '''')" and req = md5_request
      and w = "(True, [((2, '''', ''Error: no manifest''), True)])"
      and st = "((True, []), [])" and pkgname = "''md5''" and path = "''/env''"
      and h' = "scripted_host (0, ''md5 1.2'', '''')" and stb = "((True, []), [])"]
  by (simp add: run_defs)

text \<open>
  Counterexample to C4 as stated: in the basic variant a listing that exits 1 is no
  failure; the package is judged absent and the step returns.
\<close>

theorem basic_is_present_counterexample:
  "basic_is_present (scripted_host (1, '''', ''luadist: No such file or directory'')) (Str ''/env'') ''md5''
       ((True, []), []) =
     (Inr False,
      ((True, []),
       [Call Audit ''./LuaDist/bin/luadist list md5'' ''/env'' False
          (1, '''', ''luadist: No such file or directory'')]))"
  by (simp add: run_defs)

lemma fold_packages:
  "fold (\<lambda>package cmd. cmd @ (package @ '' '')) pkgs acc = acc @ concat (map (\<lambda>p. p @ '' '') pkgs)"
  by (induction pkgs arbitrary: acc) simp_all

lemma wrapper_install_cmd_eq:
  "wrapper_install_cmd pkgs ad repo =
     ''./LuaDist/bin/luadist install '' @ concat (map (\<lambda>p. p @ '' '') pkgs)
       @ '' -source='' @ (if ad = ''binary'' then ''false'' else ''true'')
       @ '' -binary='' @ (if ad = ''source'' then ''false'' else ''true'')
       @ '' -repos=\"'' @ repo @ ''\"''"
  by (simp add: wrapper_install_cmd_def fold_packages Let_def del: fold_simps)

lemma basic_install_cmd_eq:
  "basic_install_cmd (StrList pkgs) (Str ad) (Str repo) =
     Inr (''./LuaDist/bin/luadist install '' @ concat (map (\<lambda>p. p @ '' '') pkgs)
       @ '' -source='' @ (if ad = ''binary'' then ''false'' else ''true'')
       @ '' -binary='' @ (if ad = ''source'' then ''false'' else ''true'')
       @ '' --repo=\"'' @ repo @ ''\"'')"
  by (simp add: basic_install_cmd_def fold_packages Let_def del: fold_simps)

text \<open>
  C6. The install command of the extended variant is the fixed prefix, then every requested
  package name followed by one space, in request order, then the \<open>-source\<close> and
  \<open>-binary\<close> flags, then the repository URL in double quotes. Every install subprocess
  of a run has exactly this command, built from the request, and runs in the request's
  path; a successful run returns it as \<open>cmd\<close>, and returns the empty string as
  \<open>cmd\<close> when no install ran.
\<close>

theorem install_command_shape:
  "wrapper_install_cmd pkgs ad repo =
     ''./LuaDist/bin/luadist install '' @ concat (map (\<lambda>p. p @ '' '') pkgs)
       @ '' -source='' @ (if ad = ''binary'' then ''false'' else ''true'')
       @ '' -binary='' @ (if ad = ''source'' then ''false'' else ''true'')
       @ '' -repos=\"'' @ repo @ ''\"''
   \<and> (let res = wrapper_run_module h \<lparr>check_mode = False, params = req\<rparr> w in
        (\<forall>c\<in>set (snd (snd res)). call_step c = Install \<longrightarrow>
           (\<exists>ps. param_name req = Some ps
                \<and> call_cmd c = wrapper_install_cmd ps (param_allow_dists req) (param_dists_repo req))
           \<and> call_cwd c = param_path req
           \<and> (is_exit (fst res) \<longrightarrow> cmd_field (fst res) = Some (PyStr (call_cmd c))))
        \<and> (is_exit (fst res) \<and> \<not> ran Install (snd (snd res)) \<longrightarrow>
              cmd_field (fst res) = Some (PyStr '''')))"
proof (intro conjI)
  show "wrapper_install_cmd pkgs ad repo =
     ''./LuaDist/bin/luadist install '' @ concat (map (\<lambda>p. p @ '' '') pkgs)
       @ '' -source='' @ (if ad = ''binary'' then ''false'' else ''true'')
       @ '' -binary='' @ (if ad = ''source'' then ''false'' else ''true'')
       @ '' -repos=\"'' @ repo @ ''\"''"
    by (rule wrapper_install_cmd_eq)
next
  define res where "res = wrapper_run_module h \<lparr>check_mode = False, params = req\<rparr> w"
  define w1 where "w1 = snd (run_command h w ''curl -fksSL https://tinyurl.com/luadist | bash'' (param_path req) True)"
  define boot where "boot = Call Bootstrap ''curl -fksSL https://tinyurl.com/luadist | bash'' (param_path req) True
                 (fst (run_command h w ''curl -fksSL https://tinyurl.com/luadist | bash'' (param_path req) True))"
  define pre where "pre = (if wrapper_luadist_is_present h (param_path req) w then [] else [boot])"
  have pre_steps: "\<forall>c'\<in>set pre. call_step c' = Bootstrap"
    by (simp add: pre_def boot_def)
  from res_def w1_def boot_def pre_def
  have "(\<forall>c\<in>set (snd (snd res)). call_step c = Install \<longrightarrow>
           (\<exists>ps. param_name req = Some ps
                \<and> call_cmd c = wrapper_install_cmd ps (param_allow_dists req) (param_dists_repo req))
           \<and> call_cwd c = param_path req
           \<and> (is_exit (fst res) \<longrightarrow> cmd_field (fst res) = Some (PyStr (call_cmd c))))
        \<and> (is_exit (fst res) \<and> \<not> ran Install (snd (snd res)) \<longrightarrow>
              cmd_field (fst res) = Some (PyStr ''''))"
  proof (cases rule: wrapper_run_module_shapes)
    case boot_failed
    then have "snd (snd res) = [boot]" "\<not> is_exit (fst res)" by simp_all
    then show ?thesis by (simp add: boot_def)
  next
    case no_list
    then have "snd (snd res) = pre" "\<not> is_exit (fst res)" by simp_all
    then show ?thesis using pre_steps by fastforce
  next
    case (audit_failed ps calls c w')
    then have "snd (snd res) = pre @ calls @ [c]" "\<not> is_exit (fst res)" by simp_all
    then show ?thesis using pre_steps audit_failed(2,3) by fastforce
  next
    case (converged ps calls w')
    then have tr: "snd (snd res) = pre @ calls" and c: "cmd_field (fst res) = Some (PyStr '''')"
      by (simp_all add: cmd_field_def)
    have "\<forall>c\<in>set (snd (snd res)). call_step c \<noteq> Install"
      unfolding tr using pre_steps converged(2) by fastforce
    then show ?thesis using c by blast
  next
    case (install_failed ps calls reply w')
    then have tr: "snd (snd res) = pre @ calls @ [Call Install (wrapper_install_cmd ps (param_allow_dists req) (param_dists_repo req))
                                     (param_path req) False reply]" and ne: "\<not> is_exit (fst res)"
      by simp_all
    have "\<forall>c\<in>set (snd (snd res)). call_step c = Install \<longrightarrow>
        c = Call Install (wrapper_install_cmd ps (param_allow_dists req) (param_dists_repo req)) (param_path req) False reply"
      unfolding tr using pre_steps install_failed(2) by fastforce
    then show ?thesis using ne install_failed(1) by fastforce
  next
    case (installed ps calls reply w')
    then have tr: "snd (snd res) = pre @ calls @ [Call Install (wrapper_install_cmd ps (param_allow_dists req) (param_dists_repo req))
                                     (param_path req) False reply]"
      and c: "cmd_field (fst res) = Some (PyStr (wrapper_install_cmd ps (param_allow_dists req) (param_dists_repo req)))"
      by (simp_all add: cmd_field_def)
    have only: "\<forall>c\<in>set (snd (snd res)). call_step c = Install \<longrightarrow>
        c = Call Install (wrapper_install_cmd ps (param_allow_dists req) (param_dists_repo req)) (param_path req) False reply"
      unfolding tr using pre_steps installed(2) by fastforce
    have "ran Install (snd (snd res))"
      unfolding tr by (simp add: ran_def)
    then show ?thesis using only c installed(1) by fastforce
  qed
  then show "let res = wrapper_run_module h \<lparr>check_mode = False, params = req\<rparr> w in
        (\<forall>c\<in>set (snd (snd res)). call_step c = Install \<longrightarrow>
           (\<exists>ps. param_name req = Some ps
                \<and> call_cmd c = wrapper_install_cmd ps (param_allow_dists req) (param_dists_repo req))
           \<and> call_cwd c = param_path req
           \<and> (is_exit (fst res) \<longrightarrow> cmd_field (fst res) = Some (PyStr (call_cmd c))))
        \<and> (is_exit (fst res) \<and> \<not> ran Install (snd (snd res)) \<longrightarrow>
              cmd_field (fst res) = Some (PyStr ''''))"
    unfolding res_def Let_def .
qed

text \<open>
  Witness: \<open>/env\<close> has LuaDist but not \<open>md5\<close>; the request allows binary dists only
  and names its own repository. The audit finds \<open>md5\<close> missing, the install runs, and
  \<open>cmd\<close> is the command that ran.
\<close>

theorem install_command_shape_witness:
  "wrapper_run_module (scripted_host (0, '''', '''')) \<lparr>check_mode = False, params = md5_binary_request\<rparr>
        (True, [((0, '''', ''''), True), ((0, ''Installation succesful'', ''''), True)]) =
       (Exit_json [(''changed'', PyBool True),
                   (''cmd'', PyStr ''./LuaDist/bin/luadist install md5  -source=false -binary=true -repos=\"git://example.org/repo.git\"''),
                   (''env_path'', PyStr ''/env''), (''name'', PyList [PyStr ''md5''])],
        ((True, []),
         [Call Audit ''./LuaDist/bin/luadist list md5'' ''/env'' False (0, '''', ''''),
          Call Install ''./LuaDist/bin/luadist install md5  -source=false -binary=true -repos=\"git://example.org/repo.git\"''
            ''/env'' False (0, ''Installation succesful'', '''')]))
   \<and> wrapper_install_cmd [''luacurl'', ''luagl'', ''md5''] ''all'' ''git://github.com/LuaDist/Repository.git'' =
       ''./LuaDist/bin/luadist install luacurl luagl md5  -source=true -binary=true -repos=\"git://github.com/LuaDist/Repository.git\"''
   \<and> cmd_field (fst (wrapper_run_module (scripted_host (0, ''md5 1.2'', '''')) \<lparr>check_mode = False, params = md5_binary_request\<rparr>
        (True, []))) = Some (PyStr '''')"
  using install_command_shape[where h = "scripted_host (0, '''', '''')" and req = md5_binary_request
      and w = "(True, [((0, '''', ''''), True), ((0, ''Installation succesful'', ''''), True)])"
      and pkgs = "[''luacurl'', ''luagl'', ''md5'']" and ad = "''all''"
      and repo = "''git://github.com/LuaDist/Repository.git''"]
  by (simp add: run_defs)

text \<open>
  C7. In the install command of either variant, \<open>all\<close> gives \<open>-source=true -binary=true\<close>,
  \<open>binary\<close> gives \<open>-source=false -binary=true\<close>, and \<open>source\<close> gives
  \<open>-source=true -binary=false\<close>.
\<close>

theorem dist_policy_mapping:
  "wrapper_install_cmd pkgs ''all'' repo =
     ''./LuaDist/bin/luadist install '' @ concat (map (\<lambda>p. p @ '' '') pkgs)
       @ '' -source=true -binary=true'' @ '' -repos=\"'' @ repo @ ''\"''
   \<and> wrapper_install_cmd pkgs ''binary'' repo =
     ''./LuaDist/bin/luadist install '' @ concat (map (\<lambda>p. p @ '' '') pkgs)
       @ '' -source=false -binary=true'' @ '' -repos=\"'' @ repo @ ''\"''
   \<and> wrapper_install_cmd pkgs ''source'' repo =
     ''./LuaDist/bin/luadist install '' @ concat (map (\<lambda>p. p @ '' '') pkgs)
       @ '' -source=true -binary=false'' @ '' -repos=\"'' @ repo @ ''\"''
   \<and> basic_install_cmd (StrList pkgs) (Str ''all'') (Str repo) =
     Inr (''./LuaDist/bin/luadist install '' @ concat (map (\<lambda>p. p @ '' '') pkgs)
       @ '' -source=true -binary=true'' @ '' --repo=\"'' @ repo @ ''\"'')
   \<and> basic_install_cmd (StrList pkgs) (Str ''binary'') (Str repo) =
     Inr (''./LuaDist/bin/luadist install '' @ concat (map (\<lambda>p. p @ '' '') pkgs)
       @ '' -source=false -binary=true'' @ '' --repo=\"'' @ repo @ ''\"'')
   \<and> basic_install_cmd (StrList pkgs) (Str ''source'') (Str repo) =
     Inr (''./LuaDist/bin/luadist install '' @ concat (map (\<lambda>p. p @ '' '') pkgs)
       @ '' -source=true -binary=false'' @ '' --repo=\"'' @ repo @ ''\"'')"
  by (simp add: wrapper_install_cmd_eq basic_install_cmd_eq)

theorem dist_policy_mapping_witness:
  "wrapper_install_cmd [''md5''] ''all'' ''git://example.org/repo.git'' =
     ''./LuaDist/bin/luadist install md5  -source=true -binary=true -repos=\"git://example.org/repo.git\"''
   \<and> wrapper_install_cmd [''md5''] ''binary'' ''git://example.org/repo.git'' =
     ''./LuaDist/bin/luadist install md5  -source=false -binary=true -repos=\"git://example.org/repo.git\"''
   \<and> wrapper_install_cmd [''md5''] ''source'' ''git://example.org/repo.git'' =
     ''./LuaDist/bin/luadist install md5  -source=true -binary=false -repos=\"git://example.org/repo.git\"''
   \<and> basic_install_cmd (StrList [''md5'']) (Str ''all'') (Str ''git://example.org/repo.git'') =
     Inr ''./LuaDist/bin/luadist install md5  -source=true -binary=true --repo=\"git://example.org/repo.git\"''
   \<and> basic_install_cmd (StrList [''md5'']) (Str ''binary'') (Str ''git://example.org/repo.git'') =
     Inr ''./LuaDist/bin/luadist install md5  -source=false -binary=true --repo=\"git://example.org/repo.git\"''
   \<and> basic_install_cmd (StrList [''md5'']) (Str ''source'') (Str ''git://example.org/repo.git'') =
     Inr ''./LuaDist/bin/luadist install md5  -source=true -binary=false --repo=\"git://example.org/repo.git\"''"
  using dist_policy_mapping[where pkgs = "[''md5'']" and repo = "''git://example.org/repo.git''"]
  by simp

lemma wrapper_changed_iff_ran:
  "is_exit (fst (wrapper_run_module h \<lparr>check_mode = False, params = req\<rparr> w)) \<Longrightarrow>
     (changed_field (fst (wrapper_run_module h \<lparr>check_mode = False, params = req\<rparr> w)) = Some (PyBool True)) =
     (ran Bootstrap (snd (snd (wrapper_run_module h \<lparr>check_mode = False, params = req\<rparr> w)))
      \<or> ran Install (snd (snd (wrapper_run_module h \<lparr>check_mode = False, params = req\<rparr> w))))"
proof -
  define res where "res = wrapper_run_module h \<lparr>check_mode = False, params = req\<rparr> w"
  define w1 where "w1 = snd (run_command h w ''curl -fksSL https://tinyurl.com/luadist | bash'' (param_path req) True)"
  define boot where "boot = Call Bootstrap ''curl -fksSL https://tinyurl.com/luadist | bash'' (param_path req) True
                 (fst (run_command h w ''curl -fksSL https://tinyurl.com/luadist | bash'' (param_path req) True))"
  define pre where "pre = (if wrapper_luadist_is_present h (param_path req) w then [] else [boot])"
  have pre_boot: "ran Bootstrap pre = (\<not> wrapper_luadist_is_present h (param_path req) w)"
    and pre_inst: "\<not> ran Install pre"
    by (simp_all add: pre_def boot_def ran_def)
  have audits: "(\<forall>c'\<in>set calls. call_step c' = Audit \<and> P c') \<Longrightarrow> \<not> ran Bootstrap calls \<and> \<not> ran Install calls"
    for calls :: "call list" and P
    by (fastforce simp: ran_def)
  have ran_app: "ran s (xs @ ys) = (ran s xs \<or> ran s ys)" for s xs ys
    by (auto simp: ran_def)
  assume "is_exit (fst (wrapper_run_module h \<lparr>check_mode = False, params = req\<rparr> w))"
  then have ex: "is_exit (fst res)" by (simp add: res_def)
  from res_def w1_def boot_def pre_def
  have "(changed_field (fst res) = Some (PyBool True)) =
        (ran Bootstrap (snd (snd res)) \<or> ran Install (snd (snd res)))"
  proof (cases rule: wrapper_run_module_shapes)
    case boot_failed
    then show ?thesis using ex by simp
  next
    case no_list
    then show ?thesis using ex by simp
  next
    case (audit_failed ps calls c w')
    then show ?thesis using ex by simp
  next
    case (converged ps calls w')
    then have tr: "snd (snd res) = pre @ calls"
      and c: "changed_field (fst res) = Some (PyBool (\<not> wrapper_luadist_is_present h (param_path req) w))"
      by (simp_all add: changed_field_def)
    show ?thesis
      unfolding tr c ran_app using audits[OF converged(2)] pre_boot pre_inst by simp
  next
    case (install_failed ps calls reply w')
    then show ?thesis using ex by simp
  next
    case (installed ps calls reply w')
    then have tr: "snd (snd res) = pre @ calls @ [Call Install (wrapper_install_cmd ps (param_allow_dists req) (param_dists_repo req))
                                     (param_path req) False reply]"
      and c: "changed_field (fst res) = Some (PyBool True)"
      by (simp_all add: changed_field_def)
    show ?thesis
      unfolding tr c ran_app by (simp add: ran_def)
  qed
  then show ?thesis by (simp add: res_def)
qed

lemma ansible_module_cases:
  obtains p where "task = \<lparr>check_mode = True, params = p\<rparr>"
        | p where "task = \<lparr>check_mode = False, params = p\<rparr>"
  by (cases task) (case_tac check_mode; simp)

text \<open>
  C8. Whenever a run of either variant ends in \<^verbatim>\<open>exit_json\<close>, it reports
  \<open>changed = True\<close> if and only if the bootstrap subprocess or the install subprocess
  ran. When the LuaDist binary is present and every requested package is listed (each list
  query exits 0, prints the package's name and leaves the world as it is), the extended run
  reports \<open>changed = False\<close> and an empty \<open>cmd\<close> and runs neither bootstrap nor
  install; so it does for the empty package list.
\<close>

theorem changed_iff_bootstrap_or_install:
  "(is_exit (fst (wrapper_run_module h task w)) \<longrightarrow>
      (changed_field (fst (wrapper_run_module h task w)) = Some (PyBool True)) =
      (ran Bootstrap (snd (snd (wrapper_run_module h task w))) \<or> ran Install (snd (snd (wrapper_run_module h task w)))))
   \<and> (is_exit (fst (basic_run_module h' task' w')) \<longrightarrow>
      (changed_field (fst (basic_run_module h' task' w')) = Some (PyBool True)) =
      (ran Bootstrap (snd (snd (basic_run_module h' task' w'))) \<or> ran Install (snd (snd (basic_run_module h' task' w')))))
   \<and> (wrapper_luadist_is_present h (param_path req) w \<and> param_name req = Some pkgs \<and>
       (\<forall>p\<in>set pkgs.
          fst (fst (run_command h w (''./LuaDist/bin/luadist list '' @ p) (param_path req) False)) = 0
          \<and> py_in p (fst (snd (fst (run_command h w (''./LuaDist/bin/luadist list '' @ p) (param_path req) False))))
          \<and> snd (run_command h w (''./LuaDist/bin/luadist list '' @ p) (param_path req) False) = w) \<longrightarrow>
       (\<exists>tr. wrapper_run_module h \<lparr>check_mode = False, params = req\<rparr> w =
               (Exit_json [(''changed'', PyBool False), (''cmd'', PyStr ''''),
                           (''env_path'', PyStr (param_path req)), (''name'', PyList (map PyStr pkgs))], (w, tr))
             \<and> \<not> ran Bootstrap tr \<and> \<not> ran Install tr))
   \<and> (wrapper_luadist_is_present h (param_path req) w \<and> param_name req = Some [] \<longrightarrow>
       wrapper_run_module h \<lparr>check_mode = False, params = req\<rparr> w =
         (Exit_json [(''changed'', PyBool False), (''cmd'', PyStr ''''),
                     (''env_path'', PyStr (param_path req)), (''name'', PyList [])], (w, [])))"
proof (intro conjI impI)
  assume ex: "is_exit (fst (wrapper_run_module h task w))"
  show "(changed_field (fst (wrapper_run_module h task w)) = Some (PyBool True)) =
      (ran Bootstrap (snd (snd (wrapper_run_module h task w))) \<or> ran Install (snd (snd (wrapper_run_module h task w))))"
  proof (cases task rule: ansible_module_cases)
    case (1 p)
    then show ?thesis by (simp add: wrapper_run_module_check changed_field_def ran_def)
  next
    case (2 p)
    then show ?thesis using ex wrapper_changed_iff_ran[of h p w] by simp
  qed
next
  assume ex: "is_exit (fst (basic_run_module h' task' w'))"
  show "(changed_field (fst (basic_run_module h' task' w')) = Some (PyBool True)) =
      (ran Bootstrap (snd (snd (basic_run_module h' task' w'))) \<or> ran Install (snd (snd (basic_run_module h' task' w'))))"
  proof (cases task' rule: ansible_module_cases)
    case (1 p)
    then show ?thesis by (simp add: basic_run_module_check changed_field_def ran_def)
  next
    case (2 p)
    then show ?thesis using ex by (simp add: basic_run_module_normal)
  qed
next
  assume a: "wrapper_luadist_is_present h (param_path req) w \<and> param_name req = Some pkgs \<and>
       (\<forall>p\<in>set pkgs.
          fst (fst (run_command h w (''./LuaDist/bin/luadist list '' @ p) (param_path req) False)) = 0
          \<and> py_in p (fst (snd (fst (run_command h w (''./LuaDist/bin/luadist list '' @ p) (param_path req) False))))
          \<and> snd (run_command h w (''./LuaDist/bin/luadist list '' @ p) (param_path req) False) = w)"
  let ?tr = "map (\<lambda>p. Call Audit (''./LuaDist/bin/luadist list '' @ p) (param_path req) False
                  (fst (run_command h w (''./LuaDist/bin/luadist list '' @ p) (param_path req) False))) pkgs"
  have "wrapper_run_module h \<lparr>check_mode = False, params = req\<rparr> w =
               (Exit_json [(''changed'', PyBool False), (''cmd'', PyStr ''''),
                           (''env_path'', PyStr (param_path req)), (''name'', PyList (map PyStr pkgs))], (w, ?tr))"
    using a by (intro wrapper_run_module_converged) blast+
  moreover have "\<not> ran Bootstrap ?tr \<and> \<not> ran Install ?tr"
    by (auto simp: ran_def)
  ultimately show "\<exists>tr. wrapper_run_module h \<lparr>check_mode = False, params = req\<rparr> w =
               (Exit_json [(''changed'', PyBool False), (''cmd'', PyStr ''''),
                           (''env_path'', PyStr (param_path req)), (''name'', PyList (map PyStr pkgs))], (w, tr))
             \<and> \<not> ran Bootstrap tr \<and> \<not> ran Install tr"
    by blast
next
  assume a: "wrapper_luadist_is_present h (param_path req) w \<and> param_name req = Some []"
  then show "wrapper_run_module h \<lparr>check_mode = False, params = req\<rparr> w =
         (Exit_json [(''changed'', PyBool False), (''cmd'', PyStr ''''),
                     (''env_path'', PyStr (param_path req)), (''name'', PyList [])], (w, []))"
    using wrapper_run_module_converged[of h req w "[]"] by simp
qed

text \<open>
  Witness: with LuaDist present and \<open>md5\<close> listed, the extended run exits with
  \<open>changed = False\<close> after the one list query; with the binary absent and an empty
  package list, the bootstrap runs and the run exits with \<open>changed = True\<close>; the basic
  variant exits only in check mode, with \<open>changed = False\<close>.
\<close>

theorem changed_iff_bootstrap_or_install_witness:
  "wrapper_luadist_is_present (scripted_host (0, ''md5 1.2'', '''')) ''/env'' (True, [])
   \<and> py_in ''md5'' ''md5 1.2''
   \<and> wrapper_run_module (scripted_host (0, ''md5 1.2'', '''')) \<lparr>check_mode = False, params = md5_request\<rparr> (True, []) =
       (Exit_json [(''changed'', PyBool False), (''cmd'', PyStr ''''), (''env_path'', PyStr ''/env''),
                   (''name'', PyList [PyStr ''md5''])],
        ((True, []), [Call Audit ''./LuaDist/bin/luadist list md5'' ''/env'' False (0, ''md5 1.2'', '''')]))
   \<and> wrapper_run_module (scripted_host (0, '''', '''')) \<lparr>check_mode = False, params = base_request\<rparr>
        (False, [((0, ''LuaDist installed'', ''''), True)]) =
       (Exit_json [(''changed'', PyBool True), (''cmd'', PyStr ''''), (''env_path'', PyStr ''/env''),
                   (''name'', PyList [])],
        ((True, []),
         [Call Bootstrap ''curl -fksSL https://tinyurl.com/luadist | bash'' ''/env'' True
            (0, ''LuaDist installed'', '''')]))
   \<and> ran Bootstrap (snd (snd (wrapper_run_module (scripted_host (0, '''', '''')) \<lparr>check_mode = False, params = base_request\<rparr>
        (False, [((0, ''LuaDist installed'', ''''), True)]))))
   \<and> is_exit (fst (basic_run_module (scripted_host (0, '''', '''')) \<lparr>check_mode = True, params = md5_request\<rparr> (True, [])))
   \<and> changed_field (fst (basic_run_module (scripted_host (0, '''', '''')) \<lparr>check_mode = True, params = md5_request\<rparr> (True, [])))
       = Some (PyBool False)"
  using changed_iff_bootstrap_or_install[where h = "scripted_host (0, ''md5 1.2'', '''')"
      and task = "\<lparr>check_mode = False, params = md5_request\<rparr>" and w = "(True, [])"
      and req = md5_request and pkgs = "[''md5'']"
      and h' = "scripted_host (0, '''', '''')" and task' = "\<lparr>check_mode = True, params = md5_request\<rparr>"
      and w' = "(True, [])"]
  by (simp add: run_defs)

lemma wrapper_no_list_never_exits:
  "param_name req = None \<Longrightarrow> \<not> is_exit (fst (wrapper_run_module h \<lparr>check_mode = False, params = req\<rparr> w))"
  by (simp add: wrapper_run_module_normal Let_def)

lemma wrapper_all_present_read_only:
  assumes ro: "\<forall>p\<in>set pkgs. \<forall>w. snd (run_command h w (''./LuaDist/bin/luadist list '' @ p) path False) = w"
    and audit: "wrapper_all_present h path pkgs (w, tr) = (Inr True, st')"
  shows "fst st' = w \<and>
     (\<forall>p\<in>set pkgs.
        fst (fst (run_command h w (''./LuaDist/bin/luadist list '' @ p) path False)) = 0
        \<and> py_in p (fst (snd (fst (run_command h w (''./LuaDist/bin/luadist list '' @ p) path False)))))"
  using ro audit
proof (induction pkgs arbitrary: tr)
  case Nil
  then show ?case by auto
next
  case (Cons p ps)
  let ?cmd = "''./LuaDist/bin/luadist list '' @ p"
  let ?reply = "fst (run_command h w ?cmd path False)"
  have same: "snd (run_command h w ?cmd path False) = w"
    using Cons.prems(1) by simp
  have rc: "fst ?reply = 0"
    using Cons.prems(2) by (simp add: wrapper_is_present_eq Let_def split: if_splits)
  have listed: "py_in p (fst (snd ?reply))"
    using Cons.prems(2) rc by (simp add: wrapper_is_present_eq Let_def split: if_splits)
  have rest: "wrapper_all_present h path ps (w, tr @ [Call Audit ?cmd path False ?reply]) = (Inr True, st')"
    using Cons.prems(2) rc listed same by (simp add: wrapper_is_present_eq Let_def)
  have ro': "\<forall>p\<in>set ps. \<forall>w. snd (run_command h w (''./LuaDist/bin/luadist list '' @ p) path False) = w"
    using Cons.prems(1) by simp
  from Cons.IH[OF ro' rest] rc listed show ?case by simp
qed

text \<open>
  C9 (as amended). Let list queries change nothing (the environment is stable). If a first
  call of the extended variant succeeds, then a second call with the same request, made in
  the world the first one leaves, reports \<open>changed = False\<close> and runs neither bootstrap
  nor install; when the first call ran the install, this needs the world it leaves to have
  the LuaDist binary and to list every requested package (the list query exits 0 and prints
  the package's name). A call of the basic variant that succeeds is a check-mode call, and
  the same task reports \<open>changed = False\<close> again without any subprocess.
\<close>

theorem second_call_unchanged:
  "(wrapper_run_module h \<lparr>check_mode = False, params = req\<rparr> wa = (Exit_json d, (wb, tra))
      \<and> (\<forall>p\<in>set (case param_name req of None \<Rightarrow> [] | Some ps \<Rightarrow> ps).
            \<forall>w. snd (run_command h w (''./LuaDist/bin/luadist list '' @ p) (param_path req) False) = w)
      \<and> (ran Install tra \<longrightarrow>
            wrapper_luadist_is_present h (param_path req) wb
            \<and> (\<forall>p\<in>set (case param_name req of None \<Rightarrow> [] | Some ps \<Rightarrow> ps).
                  fst (fst (run_command h wb (''./LuaDist/bin/luadist list '' @ p) (param_path req) False)) = 0
                  \<and> py_in p (fst (snd (fst (run_command h wb (''./LuaDist/bin/luadist list '' @ p) (param_path req) False)))))) \<longrightarrow>
     (\<exists>trb. wrapper_run_module h \<lparr>check_mode = False, params = req\<rparr> wb =
               (Exit_json [(''changed'', PyBool False), (''cmd'', PyStr ''''),
                           (''env_path'', PyStr (param_path req)), (''name'', py_name (param_name req))], (wb, trb))
             \<and> \<not> ran Bootstrap trb \<and> \<not> ran Install trb))
   \<and> (basic_run_module h' task wa' = (Exit_json d', sta') \<longrightarrow>
        basic_run_module h' task w' = (Exit_json [(''changed'', PyBool False)], (w', [])))"
proof (intro conjI impI)
  assume a: "wrapper_run_module h \<lparr>check_mode = False, params = req\<rparr> wa = (Exit_json d, (wb, tra))
      \<and> (\<forall>p\<in>set (case param_name req of None \<Rightarrow> [] | Some ps \<Rightarrow> ps).
            \<forall>w. snd (run_command h w (''./LuaDist/bin/luadist list '' @ p) (param_path req) False) = w)
      \<and> (ran Install tra \<longrightarrow>
            wrapper_luadist_is_present h (param_path req) wb
            \<and> (\<forall>p\<in>set (case param_name req of None \<Rightarrow> [] | Some ps \<Rightarrow> ps).
                  fst (fst (run_command h wb (''./LuaDist/bin/luadist list '' @ p) (param_path req) False)) = 0
                  \<and> py_in p (fst (snd (fst (run_command h wb (''./LuaDist/bin/luadist list '' @ p) (param_path req) False))))))"
  let ?path = "param_path req"
  let ?cmd0 = "''curl -fksSL https://tinyurl.com/luadist | bash''"
  let ?wc = "snd (run_command h wa ?cmd0 ?path True)"
  let ?boot = "Call Bootstrap ?cmd0 ?path True (fst (run_command h wa ?cmd0 ?path True))"
  let ?p0 = "wrapper_luadist_is_present h ?path wa"
  let ?ws = "if ?p0 then wa else ?wc"
  let ?pre = "if ?p0 then [] else [?boot]"
  from a have first: "wrapper_run_module h \<lparr>check_mode = False, params = req\<rparr> wa = (Exit_json d, (wb, tra))"
    by blast
  then have ex: "is_exit (fst (wrapper_run_module h \<lparr>check_mode = False, params = req\<rparr> wa))"
    by simp
  then obtain pkgs where pkgs: "param_name req = Some pkgs"
    using wrapper_no_list_never_exits[of req h wa] by (cases "param_name req") auto
  from a pkgs have ro: "\<forall>p\<in>set pkgs. \<forall>w. snd (run_command h w (''./LuaDist/bin/luadist list '' @ p) ?path False) = w"
    by simp
  have failed: "\<not> ?p0 \<and> \<not> wrapper_luadist_is_present h ?path ?wc \<Longrightarrow>
      \<not> is_exit (fst (wrapper_run_module h \<lparr>check_mode = False, params = req\<rparr> wa))"
    by (simp add: wrapper_run_module_normal Let_def)
  have booted: "\<not> (\<not> ?p0 \<and> \<not> wrapper_luadist_is_present h ?path ?wc)"
    using failed ex by blast
  have present_ws: "wrapper_luadist_is_present h ?path ?ws"
  proof (cases ?p0)
    case True
    then show ?thesis by simp
  next
    case False
    with booted show ?thesis by simp
  qed
  obtain r st where audit: "wrapper_all_present h ?path pkgs (?ws, ?pre) = (r, st)"
    by (cases "wrapper_all_present h ?path pkgs (?ws, ?pre)")
  have run: "wrapper_run_module h \<lparr>check_mode = False, params = req\<rparr> wa =
      (case wrapper_all_present h ?path pkgs (?ws, ?pre) of
         (Inl e, st) \<Rightarrow> (e, st)
       | (Inr all_present, st) \<Rightarrow>
           if \<not> all_present
           then (case wrapper_install_packages h ?path pkgs (param_allow_dists req) (param_dists_repo req) st of
                   (Inl e, st) \<Rightarrow> (e, st)
                 | (Inr cmd, st) \<Rightarrow>
                     (Exit_json [(''changed'', PyBool True), (''cmd'', PyStr cmd),
                                 (''env_path'', PyStr ?path), (''name'', py_name (param_name req))], st))
           else (Exit_json [(''changed'', PyBool (\<not> ?p0)), (''cmd'', PyStr ''''),
                            (''env_path'', PyStr ?path), (''name'', py_name (param_name req))], st))"
  proof (cases ?p0)
    case True
    then show ?thesis using pkgs by (simp add: wrapper_run_module_normal Let_def)
  next
    case False
    with booted have "wrapper_luadist_is_present h ?path ?wc" by blast
    with False show ?thesis using pkgs by (simp add: wrapper_run_module_normal Let_def)
  qed
  note nf = run[unfolded first audit]
  have conv: "wrapper_luadist_is_present h ?path wb \<and>
     (\<forall>p\<in>set pkgs.
        fst (fst (run_command h wb (''./LuaDist/bin/luadist list '' @ p) ?path False)) = 0
        \<and> py_in p (fst (snd (fst (run_command h wb (''./LuaDist/bin/luadist list '' @ p) ?path False)))))"
  proof (cases r)
    case (Inl e)
    from audit_Inl[OF audit[unfolded Inl]] obtain x where "e = Fail_json x" by blast
    with nf Inl show ?thesis by simp
  next
    case (Inr ap)
    show ?thesis
    proof (cases ap)
      case True
      with nf Inr have st: "st = (wb, tra)" by simp
      from audit Inr True have "wrapper_all_present h ?path pkgs (?ws, ?pre) = (Inr True, st)"
        by simp
      from wrapper_all_present_read_only[OF ro this] st have "wb = ?ws"
        "\<forall>p\<in>set pkgs.
          fst (fst (run_command h ?ws (''./LuaDist/bin/luadist list '' @ p) ?path False)) = 0
          \<and> py_in p (fst (snd (fst (run_command h ?ws (''./LuaDist/bin/luadist list '' @ p) ?path False))))"
        by simp_all
      with present_ws show ?thesis by simp
    next
      case False
      let ?icmd = "wrapper_install_cmd pkgs (param_allow_dists req) (param_dists_repo req)"
      let ?ic = "Call Install ?icmd ?path False (fst (run_command h (fst st) ?icmd ?path False))"
      obtain ri sti where inst:
        "wrapper_install_packages h ?path pkgs (param_allow_dists req) (param_dists_repo req) st = (ri, sti)"
        by (cases "wrapper_install_packages h ?path pkgs (param_allow_dists req) (param_dists_repo req) st")
      have "snd (snd (wrapper_install_packages h ?path pkgs (param_allow_dists req) (param_dists_repo req) st))
              = snd st @ [?ic]"
        by (simp add: wrapper_install_packages_eq Let_def)
      then have sti: "snd sti = snd st @ [?ic]"
        using inst by simp
      have "(Exit_json d, (wb, tra)) =
          (case (ri, sti) of
             (Inl e, st) \<Rightarrow> (e, st)
           | (Inr cmd, st) \<Rightarrow>
               (Exit_json [(''changed'', PyBool True), (''cmd'', PyStr cmd),
                           (''env_path'', PyStr ?path), (''name'', py_name (param_name req))], st))"
        using nf Inr False inst by simp
      then have "tra = snd sti"
        by (cases ri) (simp_all add: prod_eq_iff)
      with sti have "ran Install tra"
        by (simp add: ran_def)
      with a pkgs show ?thesis by simp
    qed
  qed
  have present_wb: "wrapper_luadist_is_present h ?path wb"
    using conv by blast
  have listed: "\<forall>p\<in>set pkgs.
        fst (fst (run_command h wb (''./LuaDist/bin/luadist list '' @ p) ?path False)) = 0
        \<and> py_in p (fst (snd (fst (run_command h wb (''./LuaDist/bin/luadist list '' @ p) ?path False))))
        \<and> snd (run_command h wb (''./LuaDist/bin/luadist list '' @ p) ?path False) = wb"
    using conv ro by blast
  let ?tr = "map (\<lambda>p. Call Audit (''./LuaDist/bin/luadist list '' @ p) ?path False
                  (fst (run_command h wb (''./LuaDist/bin/luadist list '' @ p) ?path False))) pkgs"
  have second: "wrapper_run_module h \<lparr>check_mode = False, params = req\<rparr> wb =
               (Exit_json [(''changed'', PyBool False), (''cmd'', PyStr ''''),
                           (''env_path'', PyStr ?path), (''name'', PyList (map PyStr pkgs))], (wb, ?tr))"
    by (rule wrapper_run_module_converged[OF present_wb pkgs listed])
  have quiet: "\<not> ran Bootstrap ?tr \<and> \<not> ran Install ?tr"
    by (auto simp: ran_def)
  have name: "py_name (param_name req) = PyList (map PyStr pkgs)"
    using pkgs by (simp add: py_name_def)
  show "\<exists>trb. wrapper_run_module h \<lparr>check_mode = False, params = req\<rparr> wb =
               (Exit_json [(''changed'', PyBool False), (''cmd'', PyStr ''''),
                           (''env_path'', PyStr (param_path req)), (''name'', py_name (param_name req))], (wb, trb))
             \<and> \<not> ran Bootstrap trb \<and> \<not> ran Install trb"
    unfolding name using second quiet by blast
next
  assume a: "basic_run_module h' task wa' = (Exit_json d', sta')"
  show "basic_run_module h' task w' = (Exit_json [(''changed'', PyBool False)], (w', []))"
  proof (cases task rule: ansible_module_cases)
    case (1 p)
    then show ?thesis by (simp add: basic_run_module_check)
  next
    case (2 p)
    then show ?thesis using a by (simp add: basic_run_module_normal)
  qed
qed

text \<open>
  Witness, on the host whose list queries change nothing. A first call with nothing in
  place bootstraps LuaDist and installs \<open>md5\<close>; it leaves the binary present and
  \<open>md5\<close> listed, and the second call changes nothing. A check-mode call of the basic
  variant reports \<open>changed = False\<close>.
\<close>

theorem second_call_unchanged_witness:
  "wrapper_run_module (package_host True) \<lparr>check_mode = False, params = md5_request\<rparr> (False, False) =
       (Exit_json [(''changed'', PyBool True),
                   (''cmd'', PyStr ''./LuaDist/bin/luadist install md5  -source=true -binary=true -repos=\"git://github.com/LuaDist/Repository.git\"''),
                   (''env_path'', PyStr ''/env''), (''name'', PyList [PyStr ''md5''])],
        ((True, True),
         [Call Bootstrap ''curl -fksSL https://tinyurl.com/luadist | bash'' ''/env'' True (0, ''LuaDist installed'', ''''),
          Call Audit ''./LuaDist/bin/luadist list md5'' ''/env'' False (0, '''', ''''),
          Call Install ''./LuaDist/bin/luadist install md5  -source=true -binary=true -repos=\"git://github.com/LuaDist/Repository.git\"''
            ''/env'' False (0, ''Installation succesful'', '''')]))
   \<and> (\<forall>w. snd (run_command (package_host True) w ''./LuaDist/bin/luadist list md5'' ''/env'' False) = w)
   \<and> wrapper_luadist_is_present (package_host True) ''/env'' (True, True)
   \<and> fst (run_command (package_host True) (True, True) ''./LuaDist/bin/luadist list md5'' ''/env'' False) = (0, ''md5 1.2'', '''')
   \<and> py_in ''md5'' ''md5 1.2''
   \<and> fst (wrapper_run_module (package_host True) \<lparr>check_mode = False, params = md5_request\<rparr> (True, True)) =
       Exit_json [(''changed'', PyBool False), (''cmd'', PyStr ''''), (''env_path'', PyStr ''/env''),
                  (''name'', PyList [PyStr ''md5''])]
   \<and> \<not> ran Bootstrap (snd (snd (wrapper_run_module (package_host True) \<lparr>check_mode = False, params = md5_request\<rparr> (True, True))))
   \<and> \<not> ran Install (snd (snd (wrapper_run_module (package_host True) \<lparr>check_mode = False, params = md5_request\<rparr> (True, True))))
   \<and> basic_run_module (scripted_host (0, '''', '''')) \<lparr>check_mode = True, params = md5_request\<rparr> (False, []) =
       (Exit_json [(''changed'', PyBool False)], ((False, []), []))"
proof -
  let ?icmd = "''./LuaDist/bin/luadist install md5  -source=true -binary=true -repos=\"git://github.com/LuaDist/Repository.git\"''"
  let ?tra = "[Call Bootstrap ''curl -fksSL https://tinyurl.com/luadist | bash'' ''/env'' True (0, ''LuaDist installed'', ''''),
          Call Audit ''./LuaDist/bin/luadist list md5'' ''/env'' False (0, '''', ''''),
          Call Install ?icmd ''/env'' False (0, ''Installation succesful'', '''')]"
  let ?d = "[(''changed'', PyBool True), (''cmd'', PyStr ?icmd),
             (''env_path'', PyStr ''/env''), (''name'', PyList [PyStr ''md5''])]"
  have first: "wrapper_run_module (package_host True) \<lparr>check_mode = False, params = md5_request\<rparr> (False, False) =
      (Exit_json ?d, ((True, True), ?tra))"
    by (simp add: run_defs package_host_def)
  have ro: "\<forall>w. snd (run_command (package_host True) w ''./LuaDist/bin/luadist list md5'' ''/env'' False) = w"
    by (simp add: package_host_def)
  have present: "wrapper_luadist_is_present (package_host True) ''/env'' (True, True)"
    by (simp add: wrapper_luadist_is_present_def package_host_def)
  have reply: "fst (run_command (package_host True) (True, True) ''./LuaDist/bin/luadist list md5'' ''/env'' False) = (0, ''md5 1.2'', '''')"
    by (simp add: package_host_def)
  have listed: "py_in ''md5'' ''md5 1.2''"
    by (simp add: py_in_def)
  have path: "param_path md5_request = ''/env''" and name: "param_name md5_request = Some [''md5'']"
    by (simp_all add: md5_request_def)
  have hyp: "wrapper_run_module (package_host True) \<lparr>check_mode = False, params = md5_request\<rparr> (False, False) =
        (Exit_json ?d, ((True, True), ?tra))
      \<and> (\<forall>p\<in>set (case param_name md5_request of None \<Rightarrow> [] | Some ps \<Rightarrow> ps).
            \<forall>w. snd (run_command (package_host True) w (''./LuaDist/bin/luadist list '' @ p) (param_path md5_request) False) = w)
      \<and> (ran Install ?tra \<longrightarrow>
            wrapper_luadist_is_present (package_host True) (param_path md5_request) (True, True)
            \<and> (\<forall>p\<in>set (case param_name md5_request of None \<Rightarrow> [] | Some ps \<Rightarrow> ps).
                  fst (fst (run_command (package_host True) (True, True) (''./LuaDist/bin/luadist list '' @ p) (param_path md5_request) False)) = 0
                  \<and> py_in p (fst (snd (fst (run_command (package_host True) (True, True) (''./LuaDist/bin/luadist list '' @ p) (param_path md5_request) False))))))"
    unfolding path name using first ro present reply listed by simp
  have basic: "basic_run_module (scripted_host (0, '''', '''')) \<lparr>check_mode = True, params = md5_request\<rparr> (False, []) =
       (Exit_json [(''changed'', PyBool False)], ((False, []), []))"
    by (simp add: basic_run_module_check)
  from second_call_unchanged[where h = "package_host True" and req = md5_request
      and wa = "(False, False)" and wb = "(True, True)" and d = ?d and tra = ?tra
      and h' = "scripted_host (0, '''', '''')" and task = "\<lparr>check_mode = True, params = md5_request\<rparr>"
      and wa' = "(False, [])" and w' = "(False, [])" and d' = "[(''changed'', PyBool False)]"
      and sta' = "((False, []), [])"]
  have "\<exists>trb. wrapper_run_module (package_host True) \<lparr>check_mode = False, params = md5_request\<rparr> (True, True) =
               (Exit_json [(''changed'', PyBool False), (''cmd'', PyStr ''''),
                           (''env_path'', PyStr (param_path md5_request)), (''name'', py_name (param_name md5_request))],
                ((True, True), trb))
             \<and> \<not> ran Bootstrap trb \<and> \<not> ran Install trb"
    using hyp by blast
  then obtain trb where second:
    "wrapper_run_module (package_host True) \<lparr>check_mode = False, params = md5_request\<rparr> (True, True) =
       (Exit_json [(''changed'', PyBool False), (''cmd'', PyStr ''''),
                   (''env_path'', PyStr ''/env''), (''name'', PyList [PyStr ''md5''])], ((True, True), trb))"
    and quiet: "\<not> ran Bootstrap trb" "\<not> ran Install trb"
    unfolding path name by (auto simp: py_name_def)
  from second have out: "fst (wrapper_run_module (package_host True) \<lparr>check_mode = False, params = md5_request\<rparr> (True, True)) =
       Exit_json [(''changed'', PyBool False), (''cmd'', PyStr ''''), (''env_path'', PyStr ''/env''),
                  (''name'', PyList [PyStr ''md5''])]"
    and tr: "snd (snd (wrapper_run_module (package_host True) \<lparr>check_mode = False, params = md5_request\<rparr> (True, True))) = trb"
    by simp_all
  show ?thesis
    using first ro present reply listed out quiet basic unfolding tr by blast
qed

text \<open>
  Why the install case names the binary: on a host whose install lists \<open>md5\<close> but
  removes the binary, the list queries change nothing and the first call succeeds, yet the
  second call bootstraps again and reports \<open>changed = True\<close>.
\<close>

lemma second_call_needs_binary:
  "fst (wrapper_run_module (package_host False) \<lparr>check_mode = False, params = md5_request\<rparr> (True, False)) =
     Exit_json [(''changed'', PyBool True),
                (''cmd'', PyStr ''./LuaDist/bin/luadist install md5  -source=true -binary=true -repos=\"git://github.com/LuaDist/Repository.git\"''),
                (''env_path'', PyStr ''/env''), (''name'', PyList [PyStr ''md5''])]
   \<and> fst (snd (wrapper_run_module (package_host False) \<lparr>check_mode = False, params = md5_request\<rparr> (True, False))) =
       (False, True)
   \<and> wrapper_run_module (package_host False) \<lparr>check_mode = False, params = md5_request\<rparr> (False, True) =
       (Exit_json [(''changed'', PyBool True), (''cmd'', PyStr ''''), (''env_path'', PyStr ''/env''),
                   (''name'', PyList [PyStr ''md5''])],
        ((True, True),
         [Call Bootstrap ''curl -fksSL https://tinyurl.com/luadist | bash'' ''/env'' True (0, ''LuaDist installed'', ''''),
          Call Audit ''./LuaDist/bin/luadist list md5'' ''/env'' False (0, ''md5 1.2'', '''')]))"
  by (simp add: run_defs package_host_def)

text \<open>
  Counterexample to C9 as stated. The frozen host never changes: LuaDist is present,
  \<open>md5\<close> is never listed, and the install exits 1 with the no-op phrase. The first call
  succeeds with \<open>changed = True\<close>, and so does the second call, made in the world the
  first one left, running the install again.
\<close>

theorem second_call_changed_counterexample:
  "wrapper_run_module frozen_host \<lparr>check_mode = False, params = md5_request\<rparr> () =
     (Exit_json [(''changed'', PyBool True),
                 (''cmd'', PyStr ''./LuaDist/bin/luadist install md5  -source=true -binary=true -repos=\"git://github.com/LuaDist/Repository.git\"''),
                 (''env_path'', PyStr ''/env''), (''name'', PyList [PyStr ''md5''])],
      ((), [Call Audit ''./LuaDist/bin/luadist list md5'' ''/env'' False (0, '''', ''''),
            Call Install ''./LuaDist/bin/luadist install md5  -source=true -binary=true -repos=\"git://github.com/LuaDist/Repository.git\"''
              ''/env'' False (1, ''No packages to install'', '''')]))
   \<and> changed_field (fst (wrapper_run_module frozen_host \<lparr>check_mode = False, params = md5_request\<rparr>
         (fst (snd (wrapper_run_module frozen_host \<lparr>check_mode = False, params = md5_request\<rparr> ()))))) =
       Some (PyBool True)
   \<and> ran Install (snd (snd (wrapper_run_module frozen_host \<lparr>check_mode = False, params = md5_request\<rparr>
         (fst (snd (wrapper_run_module frozen_host \<lparr>check_mode = False, params = md5_request\<rparr> ()))))))"
  by (simp add: run_defs)

text \<open>
  C10. The argument spec of the extended variant declares no default for \<open>name\<close>, so a
  task that omits it hands \<^verbatim>\<open>None\<close> to \<^verbatim>\<open>run_module\<close>. Such a run never ends in
  \<^verbatim>\<open>exit_json\<close> and never audits or installs: after the bootstrap step (skipped when
  the binary is present, fatal when the binary is still absent after it) the audit loop
  raises \<^verbatim>\<open>TypeError\<close>. With the empty list instead, and the binary present, the run
  ends in \<^verbatim>\<open>exit_json\<close>.
\<close>

theorem omitted_package_list_raises:
  "declared_default wrapper_module_args ''name'' = None
   \<and> (param_name req = None \<longrightarrow>
        (let cmd = ''curl -fksSL https://tinyurl.com/luadist | bash'';
             reply = fst (run_command h w cmd (param_path req) True);
             wb = snd (run_command h w cmd (param_path req) True);
             boot = Call Bootstrap cmd (param_path req) True reply;
             res = wrapper_run_module h \<lparr>check_mode = False, params = req\<rparr> w
         in \<not> is_exit (fst res) \<and> \<not> ran Audit (snd (snd res)) \<and> \<not> ran Install (snd (snd res))
            \<and> res =
               (if wrapper_luadist_is_present h (param_path req) w then (Raised TypeError, (w, []))
                else if wrapper_luadist_is_present h (param_path req) wb then (Raised TypeError, (wb, [boot]))
                else (Fail_json [(''rc'', PyInt (fst reply)), (''stdout'', PyStr (fst (snd reply))),
                                 (''stderr'', PyStr (snd (snd reply))),
                                 (''msg'', PyStr ''Cannot create LuaDist environment in the specified path.'')],
                      (wb, [boot])))))
   \<and> (param_name req = Some [] \<and> wrapper_luadist_is_present h (param_path req) w \<longrightarrow>
        is_exit (fst (wrapper_run_module h \<lparr>check_mode = False, params = req\<rparr> w)))"
proof (intro conjI impI)
  show "declared_default wrapper_module_args ''name'' = None"
    by (simp add: declared_default_def wrapper_module_args_def)
next
  assume none: "param_name req = None"
  show "let cmd = ''curl -fksSL https://tinyurl.com/luadist | bash'';
             reply = fst (run_command h w cmd (param_path req) True);
             wb = snd (run_command h w cmd (param_path req) True);
             boot = Call Bootstrap cmd (param_path req) True reply;
             res = wrapper_run_module h \<lparr>check_mode = False, params = req\<rparr> w
         in \<not> is_exit (fst res) \<and> \<not> ran Audit (snd (snd res)) \<and> \<not> ran Install (snd (snd res))
            \<and> res =
               (if wrapper_luadist_is_present h (param_path req) w then (Raised TypeError, (w, []))
                else if wrapper_luadist_is_present h (param_path req) wb then (Raised TypeError, (wb, [boot]))
                else (Fail_json [(''rc'', PyInt (fst reply)), (''stdout'', PyStr (fst (snd reply))),
                                 (''stderr'', PyStr (snd (snd reply))),
                                 (''msg'', PyStr ''Cannot create LuaDist environment in the specified path.'')],
                      (wb, [boot])))"
    using none by (simp add: wrapper_run_module_normal Let_def ran_def)
next
  assume "param_name req = Some [] \<and> wrapper_luadist_is_present h (param_path req) w"
  then show "is_exit (fst (wrapper_run_module h \<lparr>check_mode = False, params = req\<rparr> w))"
    using wrapper_run_module_converged[of h req w "[]"] by simp
qed

text \<open>
  Witness: the same host and world, once without the package list and once with the empty
  one; and a run without the list that bootstraps first.
\<close>

theorem omitted_package_list_raises_witness:
  "param_name no_list_request = None
   \<and> wrapper_run_module (scripted_host (0, '''', '''')) \<lparr>check_mode = False, params = no_list_request\<rparr> (True, []) =
       (Raised TypeError, ((True, []), []))
   \<and> wrapper_run_module (scripted_host (0, '''', '''')) \<lparr>check_mode = False, params = no_list_request\<rparr>
        (False, [((0, ''LuaDist installed'', ''''), True)]) =
       (Raised TypeError,
        ((True, []),
         [Call Bootstrap ''curl -fksSL https://tinyurl.com/luadist | bash'' ''/env'' True
            (0, ''LuaDist installed'', '''')]))
   \<and> param_name base_request = Some []
   \<and> wrapper_run_module (scripted_host (0, '''', '''')) \<lparr>check_mode = False, params = base_request\<rparr> (True, []) =
       (Exit_json [(''changed'', PyBool False), (''cmd'', PyStr ''''), (''env_path'', PyStr ''/env''),
                   (''name'', PyList [])], ((True, []), []))"
  using omitted_package_list_raises[where h = "scripted_host (0, '''', '''')" and req = no_list_request
      and w = "(True, [])"]
    omitted_package_list_raises[where h = "scripted_host (0, '''', '''')" and req = base_request
      and w = "(True, [])"]
  by (simp add: run_defs)

text \<open>
  In the extended variant every subprocess of a run has the request's path as its working
  directory.
\<close>

lemma wrapper_calls_use_request_path:
  "\<forall>c\<in>set (snd (snd (wrapper_run_module h \<lparr>check_mode = False, params = req\<rparr> w))).
     call_cwd c = param_path req"
proof -
  define res where "res = wrapper_run_module h \<lparr>check_mode = False, params = req\<rparr> w"
  define wb where "wb = snd (run_command h w ''curl -fksSL https://tinyurl.com/luadist | bash'' (param_path req) True)"
  define boot where "boot = Call Bootstrap ''curl -fksSL https://tinyurl.com/luadist | bash'' (param_path req) True
                 (fst (run_command h w ''curl -fksSL https://tinyurl.com/luadist | bash'' (param_path req) True))"
  define pre where "pre = (if wrapper_luadist_is_present h (param_path req) w then [] else [boot])"
  have pre_cwd: "\<forall>c'\<in>set pre. call_cwd c' = param_path req"
    by (simp add: pre_def boot_def)
  from res_def wb_def boot_def pre_def
  have "\<forall>c\<in>set (snd (snd res)). call_cwd c = param_path req"
  proof (cases rule: wrapper_run_module_shapes)
    case boot_failed
    then have "snd (snd res) = [boot]" by simp
    then show ?thesis by (simp add: boot_def)
  next
    case no_list
    then have "snd (snd res) = pre" by simp
    then show ?thesis using pre_cwd by simp
  next
    case (audit_failed ps calls c w')
    then have "snd (snd res) = pre @ calls @ [c]" by simp
    then show ?thesis using pre_cwd audit_failed(2,4) by fastforce
  next
    case (converged ps calls w')
    then have "snd (snd res) = pre @ calls" by simp
    then show ?thesis using pre_cwd converged(2) by fastforce
  next
    case (install_failed ps calls reply w')
    then have "snd (snd res) = pre @ calls @ [Call Install (wrapper_install_cmd ps (param_allow_dists req) (param_dists_repo req))
                                     (param_path req) False reply]" by simp
    then show ?thesis using pre_cwd install_failed(2) by fastforce
  next
    case (installed ps calls reply w')
    then have "snd (snd res) = pre @ calls @ [Call Install (wrapper_install_cmd ps (param_allow_dists req) (param_dists_repo req))
                                     (param_path req) False reply]" by simp
    then show ?thesis using pre_cwd installed(2) by fastforce
  qed
  then show ?thesis by (simp add: res_def)
qed

end
